theory Spec2Isabelle
  imports Main "HOL-Library.Word" "HOL-Library.Sublist"
begin

unbundle bit_operations_syntax

section \<open>Python values\<close>

text \<open>A Python \<^verbatim>\<open>str\<close> is a sequence of Unicode code points and is modelled as a list of
  natural numbers; \<open>py\<close> turns an ASCII literal into such a list, and the Chinese literals of the
  source are written as their code points. \<^verbatim>\<open>bytes\<close> are lists of 8-bit words. An exception
  carries its class name and its message; \<^verbatim>\<open>PermissionError\<close> has a constructor of its own
  because \<^verbatim>\<open>atomic_replace\<close> catches it apart from the others. Only instances of
  \<^verbatim>\<open>Exception\<close> are modelled.\<close>

type_synonym byte = "8 word"
type_synonym pystr = "nat list"

definition py :: "string \<Rightarrow> pystr" where
  "py s = map of_char s"

datatype exn = PermissionError pystr | OtherError pystr pystr

fun class_name :: "exn \<Rightarrow> pystr" where
  "class_name (PermissionError m) = py ''PermissionError''"
| "class_name (OtherError c m) = c"

fun exn_text :: "exn \<Rightarrow> pystr" where
  "exn_text (PermissionError m) = m"
| "exn_text (OtherError c m) = m"

fun digits :: "nat \<Rightarrow> pystr" where
  "digits n = (if n < 10 then [48 + n] else digits (n div 10) @ [48 + n mod 10])"

declare digits.simps [simp del]

definition py_str :: "int \<Rightarrow> pystr" where
  "py_str i = (if i < 0 then 45 # digits (nat (- i)) else digits (nat i))"

fun join_str :: "pystr \<Rightarrow> pystr list \<Rightarrow> pystr" where
  "join_str sep [] = []"
| "join_str sep [x] = x"
| "join_str sep (x # y # ys) = x @ sep @ join_str sep (y # ys)"

fun py_in :: "pystr \<Rightarrow> pystr \<Rightarrow> bool" where
  "py_in needle [] = (needle = [])"
| "py_in needle (c # cs) = (prefix needle (c # cs) \<or> py_in needle cs)"

definition found :: "pystr option \<Rightarrow> bool" where
  "found r = (case r of None \<Rightarrow> False | Some p \<Rightarrow> p \<noteq> [])"

section \<open>FLAC parsing\<close>

text \<open>The file object is the list of the file's bytes and a cursor: \<open>file_read bs pos n\<close> is
  \<^verbatim>\<open>f.read(n)\<close> at cursor \<open>pos\<close> (shorter than \<open>n\<close> at the end of the file), the cursor
  then advances by the number of bytes returned, and \<^verbatim>\<open>f.seek(length, 1)\<close> adds \<open>length\<close> to
  the cursor, possibly beyond the end. \<open>read_block\<close> is the body of the \<^verbatim>\<open>while\<close> loop after
  the header has been read, \<open>walk\<close> the loop. Unpacking a header that does not have four bytes
  raises \<^verbatim>\<open>ValueError\<close> in Python; that branch is kept in the model.\<close>

record MetaBlock =
  mb_type :: int
  mb_length :: int
  mb_offset :: int
  mb_is_last :: bool

definition TYPE_NAMES :: "(int \<times> pystr) list" where
  "TYPE_NAMES = [(0, py ''STREAMINFO''), (1, py ''PADDING''), (2, py ''APPLICATION''),
     (3, py ''SEEKTABLE''), (4, py ''VORBIS_COMMENT''), (5, py ''CUESHEET''), (6, py ''PICTURE'')]"

record StreamInfo =
  sample_rate :: int
  channels :: int
  bits_per_sample :: int
  total_samples :: int

record FlacProbe =
  ok :: bool
  reason :: pystr
  is_flac :: bool
  blocks :: "MetaBlock list"
  streaminfo :: "StreamInfo option"
  total_meta_bytes_with_headers :: int
  picture_bytes_total :: int
  unknown_block_count :: int
  last_block_marked :: bool

definition file_read :: "byte list \<Rightarrow> nat \<Rightarrow> nat \<Rightarrow> byte list" where
  "file_read bs pos n = take n (drop pos bs)"

definition from_bytes_big :: "byte list \<Rightarrow> int" where
  "from_bytes_big a = foldl (\<lambda>acc b. acc * 256 + uint b) 0 a"

definition decode_streaminfo :: "byte list \<Rightarrow> StreamInfo" where
  "decode_streaminfo data =
     (let a = take (18 - 10) (drop 10 data);
          x = from_bytes_big a;
          sr = drop_bit (3 + 5 + 36) x AND (push_bit 20 1 - 1);
          ch = (drop_bit (5 + 36) x AND 7) + 1;
          bps = (drop_bit 36 x AND 31) + 1;
          total = x AND (push_bit 36 1 - 1)
      in \<lparr>sample_rate = sr, channels = ch, bits_per_sample = bps, total_samples = total\<rparr>)"

record walk_vars =
  v_blocks :: "MetaBlock list"
  v_streaminfo :: "StreamInfo option"
  v_total_meta :: int
  v_picture_bytes :: int
  v_unknown_cnt :: int
  v_last_marked :: bool

definition read_block :: "byte list \<Rightarrow> nat \<Rightarrow> byte list \<Rightarrow> walk_vars \<Rightarrow> exn + (walk_vars \<times> nat \<times> bool)" where
  "read_block bs pos1 hdr v =
     (case hdr of
        [c0, c1, c2, c3] \<Rightarrow>
          (let b0 = uint c0; b1 = uint c1; b2 = uint c2; b3 = uint c3;
               is_last = (b0 AND 0x80 \<noteq> 0);
               btype = b0 AND 0x7F;
               len = push_bit 16 b1 OR push_bit 8 b2 OR b3;
               offset = int pos1 - 4;
               v1 = v\<lparr>v_blocks := v_blocks v @
                        [\<lparr>mb_type = btype, mb_length = len, mb_offset = offset, mb_is_last = is_last\<rparr>],
                      v_total_meta := v_total_meta v + (len + 4)\<rparr>;
               v2 = (if btype = 6 then v1\<lparr>v_picture_bytes := v_picture_bytes v1 + len\<rparr> else v1);
               v3 = (if map_of TYPE_NAMES btype = None
                     then v2\<lparr>v_unknown_cnt := v_unknown_cnt v2 + 1\<rparr> else v2)
           in if btype = 0 \<and> len = 34
              then (let data = file_read bs pos1 34
                    in Inr (v3\<lparr>v_streaminfo := Some (decode_streaminfo data)\<rparr>,
                            pos1 + length data, is_last))
              else Inr (v3, pos1 + nat len, is_last))
      | _ \<Rightarrow> Inl (OtherError (py ''ValueError'') (py ''wrong number of values to unpack'')))"

function walk :: "byte list \<Rightarrow> nat \<Rightarrow> walk_vars \<Rightarrow> exn + walk_vars" where
  "walk bs pos v =
     (let hdr = file_read bs pos 4 in
      if length hdr < 4 then Inr v
      else (case read_block bs (pos + length hdr) hdr v of
              Inl e \<Rightarrow> Inl e
            | Inr (v', pos', is_last) \<Rightarrow>
                if is_last then Inr (v'\<lparr>v_last_marked := True\<rparr>) else walk bs pos' v'))"
  by pat_completeness auto
termination
proof (relation "measure (\<lambda>(bs, pos, v). length bs - pos)", goal_cases)
  case 1
  show ?case by simp
next
  case (2 bs pos v hdr x2 v' y pos' is_last)
  then have "pos + 4 \<le> length bs" "length hdr = 4"
    by (auto simp: file_read_def)
  moreover from 2 have "pos + length hdr \<le> pos'"
    by (auto simp: read_block_def Let_def split: list.splits if_splits)
  ultimately show ?case
    by simp
qed

declare walk.simps [simp del]

definition magic :: "byte list" where
  "magic = [0x66, 0x4C, 0x61, 0x43]"

definition init_vars :: walk_vars where
  "init_vars = \<lparr>v_blocks = [], v_streaminfo = None, v_total_meta = 0, v_picture_bytes = 0,
     v_unknown_cnt = 0, v_last_marked = False\<rparr>"

definition parse_flac :: "byte list \<Rightarrow> exn + FlacProbe" where
  "parse_flac bs =
     (let head = file_read bs 0 4 in
      if head \<noteq> magic
      then Inr \<lparr>ok = False, reason = py ''Not native FLAC (missing fLaC magic)'', is_flac = False,
                 blocks = [], streaminfo = None, total_meta_bytes_with_headers = 0,
                 picture_bytes_total = 0, unknown_block_count = 0, last_block_marked = False\<rparr>
      else (case walk bs (length head) init_vars of
              Inl e \<Rightarrow> Inl e
            | Inr v \<Rightarrow> Inr \<lparr>ok = True, reason = py ''OK'', is_flac = True,
                 blocks = v_blocks v, streaminfo = v_streaminfo v,
                 total_meta_bytes_with_headers = v_total_meta v,
                 picture_bytes_total = v_picture_bytes v, unknown_block_count = v_unknown_cnt v,
                 last_block_marked = v_last_marked v\<rparr>))"

definition has_streaminfo_block :: "MetaBlock list \<Rightarrow> bool" where
  "has_streaminfo_block bl = list_ex (\<lambda>b. mb_type b = 0 \<and> mb_length b = 34) bl"

section \<open>Diagnosis and repair strategy\<close>

text \<open>\<open>decide_fix\<close> takes the lookup \<^verbatim>\<open>which\<close> and the formatter \<^verbatim>\<open>human_bytes\<close> as
  parameters: the first reads the search path of the machine, the second formats through binary
  floating point. The parameter \<open>meta_threshold_bytes\<close> stands for the outcome of the conversion
  \<^verbatim>\<open>int(meta_threshold_mb*1024*1024)\<close> of the float argument: the integer, or the exception that
  Python raises for an infinity or a NaN. The action is one of the four strings the source
  names.\<close>

datatype action = Ffmpeg | Flac | Metaflac | Skip

fun action_name :: "action \<Rightarrow> pystr" where
  "action_name Ffmpeg = py ''ffmpeg''"
| "action_name Flac = py ''flac''"
| "action_name Metaflac = py ''metaflac''"
| "action_name Skip = py ''skip''"

record FixPlan =
  needs_fix :: bool
  reasons :: "pystr list"
  action :: action
  keep_cover :: bool

definition reason_decode :: pystr where
  "reason_decode = [35299, 30721, 22833, 36133, 47, 25773, 25918, 22120, 25298, 32477, 25773, 25918]"

definition reason_unknown :: "int \<Rightarrow> pystr" where
  "reason_unknown n = [23384, 22312] @ py '' UNKNOWN '' @ [20803, 25968, 25454, 22359] @ py '': ''
      @ py_str n @ [32, 20010]"

definition reason_unterminated :: pystr where
  "reason_unterminated = [20803, 25968, 25454, 26410, 26631, 35760, 32456, 27490] @ py '' is_last=false''"

definition reason_meta :: "pystr \<Rightarrow> pystr" where
  "reason_meta sz = [20803, 25968, 25454, 36807, 22823] @ py '': '' @ sz"

definition reason_cover :: "pystr \<Rightarrow> pystr \<Rightarrow> pystr" where
  "reason_cover sz cap = [23553, 38754, 36807, 22823] @ py '': '' @ sz @ py '' > '' @ cap"

definition cover_marker :: pystr where
  "cover_marker = [23553, 38754, 36807, 22823]"

definition decide_fix ::
  "(pystr \<Rightarrow> pystr option) \<Rightarrow> (int \<Rightarrow> pystr) \<Rightarrow> FlacProbe \<Rightarrow> bool \<Rightarrow> bool \<Rightarrow> exn + int \<Rightarrow> int
     \<Rightarrow> exn + FixPlan" where
  "decide_fix which human_bytes probe decode_ok keep_cover0 meta_threshold_bytes max_cover_bytes =
     (let r0 = [];
          r1 = (if \<not> decode_ok then r0 @ [reason_decode] else r0);
          r2 = (if unknown_block_count probe > 0
                then r1 @ [reason_unknown (unknown_block_count probe)] else r1);
          r3 = (if \<not> last_block_marked probe then r2 @ [reason_unterminated] else r2)
      in case meta_threshold_bytes of
           Inl e \<Rightarrow> Inl e
         | Inr threshold \<Rightarrow>
            (let r4 = (if total_meta_bytes_with_headers probe > threshold
                       then r3 @ [reason_meta (human_bytes (total_meta_bytes_with_headers probe))]
                       else r3);
                 r5 = (if picture_bytes_total probe > max_cover_bytes
                       then r4 @ [reason_cover (human_bytes (picture_bytes_total probe))
                                    (human_bytes max_cover_bytes)]
                       else r4);
                 fix = (length r5 > 0);
                 a0 = Skip;
                 a1 = (if fix
                       then (if found (which (py ''ffmpeg'')) then Ffmpeg
                             else if found (which (py ''flac'')) then Flac
                             else (if found (which (py ''metaflac'')) then Metaflac else Skip))
                       else a0);
                 a2 = (if fix \<and> py_in cover_marker (join_str (py '' '') r5)
                          \<and> found (which (py ''metaflac'')) \<and> \<not> found (which (py ''ffmpeg''))
                          \<and> \<not> found (which (py ''flac''))
                       then Metaflac else a1);
                 k1 = (if keep_cover0 \<and> picture_bytes_total probe > max_cover_bytes
                       then False else keep_cover0)
             in Inr \<lparr>needs_fix = fix, reasons = r5, action = a2, keep_cover = k1\<rparr>))"

section \<open>The world outside the program\<close>

text \<open>The file system maps a path to the bytes of the file stored there. Everything else the
  program asks of its environment is a field of the record \<open>world\<close>: the outcome of each
  external command (an exception when the launch fails, otherwise the return code and the
  bytes the command wrote to its output file, if it wrote any), the decoder as a function of
  the bytes it is given, the outcome of creating and of removing the scratch directory, the
  candidate path \<^verbatim>\<open>tmpdir / (path.stem + '.__fixed__.flac')\<close>, and for each file-system
  primitive used by \<open>atomic_replace\<close> the exception the operating system answers with, if any.
  The re-encoders write their destination only; \<^verbatim>\<open>metaflac --remove-all\<close> and
  \<^verbatim>\<open>metaflac --import-picture-from\<close> rewrite the file they are given. The backup copy under
  \<^verbatim>\<open>backup_dir\<close> and the exported cover are not tracked in the file system. In \<open>args\<close> the
  two float options are held as the outcome of their conversion to a number of bytes.\<close>

type_synonym path = pystr
type_synonym fs = "path \<Rightarrow> byte list option"

datatype fs_op = Unlink path | Replace path path | Rename path path | Move path path

record args =
  a_dry_run :: bool
  a_backup :: bool
  a_backup_dir :: pystr
  a_keep_cover :: bool
  a_max_cover_mb :: "exn + int"
  a_meta_threshold_mb :: "exn + int"

record world =
  w_which :: "pystr \<Rightarrow> pystr option"
  w_human_bytes :: "int \<Rightarrow> pystr"
  w_open_fault :: "exn option"
  w_sf_decode :: "byte list \<Rightarrow> bool \<times> pystr"
  w_sf_missing :: pystr
  w_backup :: "exn option"
  w_mkdtemp :: "exn option"
  w_cleanup :: "exn option"
  w_out_tmp :: path
  w_export_cover :: "exn + bool"
  w_import_cover :: "exn + int \<times> byte list option"
  w_ffmpeg :: "exn + int \<times> byte list option"
  w_mkdtemp_flac :: "exn option"
  w_flac_decode :: "exn + int \<times> bool"
  w_flac_encode :: "exn + int \<times> byte list option"
  w_cleanup_flac :: "exn option"
  w_strip :: "exn + int \<times> byte list option"
  w_faults :: "fs_op \<Rightarrow> exn option"

definition exists :: "fs \<Rightarrow> path \<Rightarrow> bool" where
  "exists fs p = (fs p \<noteq> None)"

text \<open>The message of an \<^verbatim>\<open>OSError\<close> ends with the \<^verbatim>\<open>repr\<close> of the file name, or of both
  names for a rename. \<open>quoted\<close> is that \<^verbatim>\<open>repr\<close> for a name without quotes, backslashes and
  unprintable characters: the name between two apostrophes (code point 39). The wording is the
  one of POSIX systems.\<close>

definition quoted :: "path \<Rightarrow> pystr" where
  "quoted p = [39] @ p @ [39]"

definition FileNotFoundError :: "path \<Rightarrow> exn" where
  "FileNotFoundError p =
     OtherError (py ''FileNotFoundError'') (py ''[Errno 2] No such file or directory: '' @ quoted p)"

definition FileNotFoundError2 :: "path \<Rightarrow> path \<Rightarrow> exn" where
  "FileNotFoundError2 s d =
     OtherError (py ''FileNotFoundError'')
       (py ''[Errno 2] No such file or directory: '' @ quoted s @ py '' -> '' @ quoted d)"

definition written :: "fs \<Rightarrow> path \<Rightarrow> byte list option \<Rightarrow> fs" where
  "written fs p out = (case out of None \<Rightarrow> fs | Some bs \<Rightarrow> fs(p := Some bs))"

definition unlink :: "(fs_op \<Rightarrow> exn option) \<Rightarrow> fs \<Rightarrow> path \<Rightarrow> exn + fs" where
  "unlink faults fs p =
     (case faults (Unlink p) of
        Some e \<Rightarrow> Inl e
      | None \<Rightarrow> if exists fs p then Inr (fs(p := None)) else Inl (FileNotFoundError p))"

definition moved :: "fs \<Rightarrow> path \<Rightarrow> path \<Rightarrow> fs" where
  "moved fs s d = (fs(s := None))(d := fs s)"

definition replace :: "(fs_op \<Rightarrow> exn option) \<Rightarrow> fs \<Rightarrow> path \<Rightarrow> path \<Rightarrow> exn + fs" where
  "replace faults fs s d =
     (case faults (Replace s d) of
        Some e \<Rightarrow> Inl e
      | None \<Rightarrow> if exists fs s then Inr (moved fs s d) else Inl (FileNotFoundError2 s d))"

definition rename :: "(fs_op \<Rightarrow> exn option) \<Rightarrow> fs \<Rightarrow> path \<Rightarrow> path \<Rightarrow> exn + fs" where
  "rename faults fs s d =
     (case faults (Rename s d) of
        Some e \<Rightarrow> Inl e
      | None \<Rightarrow> if exists fs s then Inr (moved fs s d) else Inl (FileNotFoundError2 s d))"

definition move :: "(fs_op \<Rightarrow> exn option) \<Rightarrow> fs \<Rightarrow> path \<Rightarrow> path \<Rightarrow> exn + fs" where
  "move faults fs s d =
     (case faults (Move s d) of
        Some e \<Rightarrow> Inl e
      | None \<Rightarrow> if exists fs s then Inr (moved fs s d) else Inl (FileNotFoundError s))"

section \<open>Decode validation\<close>

definition soundfile_decode_ok :: "world \<Rightarrow> fs \<Rightarrow> path \<Rightarrow> bool \<times> pystr" where
  "soundfile_decode_ok w fs p =
     (case fs p of None \<Rightarrow> (False, w_sf_missing w) | Some bs \<Rightarrow> w_sf_decode w bs)"

section \<open>External tools\<close>

definition export_cover_with_metaflac :: "world \<Rightarrow> exn + bool" where
  "export_cover_with_metaflac w =
     (if \<not> found (w_which w (py ''metaflac'')) then Inr False else w_export_cover w)"

definition import_cover_with_metaflac :: "world \<Rightarrow> fs \<Rightarrow> path \<Rightarrow> exn + bool \<times> fs" where
  "import_cover_with_metaflac w fs dst =
     (if \<not> found (w_which w (py ''metaflac'')) then Inr (False, fs)
      else (case w_import_cover w of
              Inl e \<Rightarrow> Inl e
            | Inr (code, out) \<Rightarrow> Inr (code = 0, written fs dst out)))"

definition strip_all_metadata_with_metaflac :: "world \<Rightarrow> fs \<Rightarrow> path \<Rightarrow> exn + bool \<times> fs" where
  "strip_all_metadata_with_metaflac w fs p =
     (if \<not> found (w_which w (py ''metaflac'')) then Inr (False, fs)
      else (case w_strip w of
              Inl e \<Rightarrow> Inl e
            | Inr (code, out) \<Rightarrow> Inr (code = 0, written fs p out)))"

definition reencode_with_ffmpeg :: "world \<Rightarrow> fs \<Rightarrow> path \<Rightarrow> path \<Rightarrow> exn + bool \<times> fs" where
  "reencode_with_ffmpeg w fs src dst =
     (case w_ffmpeg w of
        Inl e \<Rightarrow> Inl e
      | Inr (code, out) \<Rightarrow> Inr (code = 0, written fs dst out))"

definition flac_cli_body :: "world \<Rightarrow> fs \<Rightarrow> path \<Rightarrow> path \<Rightarrow> exn + bool \<times> fs" where
  "flac_cli_body w fs src dst =
     (case w_flac_decode w of
        Inl e \<Rightarrow> Inl e
      | Inr (code, wav_exists) \<Rightarrow>
          if code \<noteq> 0 \<or> \<not> wav_exists then Inr (False, fs)
          else (case w_flac_encode w of
                  Inl e \<Rightarrow> Inl e
                | Inr (code2, out) \<Rightarrow>
                    (let fs1 = written fs dst out in Inr (code2 = 0 \<and> exists fs1 dst, fs1))))"

definition reencode_with_flac_cli :: "world \<Rightarrow> fs \<Rightarrow> path \<Rightarrow> path \<Rightarrow> exn + bool \<times> fs" where
  "reencode_with_flac_cli w fs src dst =
     (case w_mkdtemp_flac w of
        Some e \<Rightarrow> Inl e
      | None \<Rightarrow>
          (let r = flac_cli_body w fs src dst
           in case w_cleanup_flac w of Some e \<Rightarrow> Inl e | None \<Rightarrow> r))"

section \<open>File replacement\<close>

text \<open>\<open>on_error\<close> is the \<^verbatim>\<open>except PermissionError\<close> clause: any other exception leaves
  \<open>atomic_replace\<close> unchanged. \<open>old_fallback\<close> is the body of that clause and \<open>restore_old\<close> its
  inner handler. The sibling \<^verbatim>\<open>dst.with_suffix(dst.suffix + '.old')\<close> is the path with
  \<^verbatim>\<open>.old\<close> appended.\<close>

definition restore_old :: "(fs_op \<Rightarrow> exn option) \<Rightarrow> fs \<Rightarrow> path \<Rightarrow> path \<Rightarrow> exn \<Rightarrow> exn option \<times> fs" where
  "restore_old faults fs dst bak e =
     (if \<not> exists fs dst \<and> exists fs bak
      then (case rename faults fs bak dst of
              Inl e' \<Rightarrow> (Some e, fs)
            | Inr fs1 \<Rightarrow> (Some e, fs1))
      else (Some e, fs))"

definition old_fallback :: "(fs_op \<Rightarrow> exn option) \<Rightarrow> fs \<Rightarrow> path \<Rightarrow> path \<Rightarrow> exn option \<times> fs" where
  "old_fallback faults fs src dst =
     (let bak = dst @ py ''.old'' in
      case (if exists fs dst then rename faults fs dst bak else Inr fs) of
        Inl e \<Rightarrow> restore_old faults fs dst bak e
      | Inr fs1 \<Rightarrow>
          (case move faults fs1 src dst of
             Inl e \<Rightarrow> restore_old faults fs1 dst bak e
           | Inr fs2 \<Rightarrow>
               if exists fs2 bak
               then (case unlink faults fs2 bak of
                       Inl e' \<Rightarrow> (None, fs2)
                     | Inr fs3 \<Rightarrow> (None, fs3))
               else (None, fs2)))"

definition on_error :: "(fs_op \<Rightarrow> exn option) \<Rightarrow> fs \<Rightarrow> path \<Rightarrow> path \<Rightarrow> exn \<Rightarrow> exn option \<times> fs" where
  "on_error faults fs src dst e =
     (case e of
        PermissionError m \<Rightarrow> old_fallback faults fs src dst
      | OtherError c m \<Rightarrow> (Some e, fs))"

definition atomic_replace :: "(fs_op \<Rightarrow> exn option) \<Rightarrow> fs \<Rightarrow> path \<Rightarrow> path \<Rightarrow> exn option \<times> fs" where
  "atomic_replace faults fs src dst =
     (case (if exists fs dst then unlink faults fs dst else Inr fs) of
        Inl e \<Rightarrow> on_error faults fs src dst e
      | Inr fs1 \<Rightarrow>
          (case replace faults fs1 src dst of
             Inl e \<Rightarrow> on_error faults fs1 src dst e
           | Inr fs2 \<Rightarrow> (None, fs2)))"

section \<open>Processing one file\<close>

text \<open>\<open>process_one\<close> is split along the source: \<open>plan_stage\<close> is the code from the probe to
  the backup, \<open>run_tool\<close> the dispatch on the action, \<open>execute_stage\<close> the code from the cover
  export to the cover import, \<open>verify_replace\<close> the last decode check and the replacement,
  \<open>leave_scratch\<close> the exit of the \<^verbatim>\<open>with\<close> block and \<open>try_block\<close> the whole body of the
  \<^verbatim>\<open>try\<close>. A stage returns \<open>Next\<close> when control falls through to the code after it, and \<open>Exit\<close>
  with the dictionary and the file system as they are at that moment when it returns or
  raises.\<close>

datatype status = SKIP | OK | DRYRUN | FIXED | FAIL | ERROR

record result =
  r_file :: pystr
  r_status :: status
  r_reasons :: pystr
  r_action :: pystr
  r_message :: pystr

datatype outcome = Returned result fs | Raised result fs exn

datatype 'a flow = Next 'a | Exit outcome

definition msg_none :: pystr where
  "msg_none = [65288, 26080, 65289]"

definition msg_dryrun :: "pystr \<Rightarrow> pystr" where
  "msg_dryrun a = [23558, 25191, 34892] @ py '': '' @ a"

definition msg_strip_ok :: pystr where
  "msg_strip_ok = py ''metaflac '' @ [28165, 31354, 20803, 25968, 25454, 21518, 39564, 35777]"

definition msg_strip_fail :: pystr where
  "msg_strip_fail = py ''metaflac '' @ [28165, 31354, 21518, 20173, 19981, 21487, 35835]"

definition msg_no_tool :: pystr where
  "msg_no_tool = [26080, 21487, 29992, 20462, 22797, 24037, 20855, 65288, 35831, 23433, 35013]
      @ py '' ffmpeg '' @ [25110] @ py '' flac'' @ [65289]"

definition msg_generate_fail :: "pystr \<Rightarrow> pystr" where
  "msg_generate_fail a = a @ [32, 29983, 25104, 22833, 36133]"

definition msg_cover_fail :: pystr where
  "msg_cover_fail = [65288, 23553, 38754, 23548, 20837, 22833, 36133, 65289]"

definition msg_verify_fail :: "pystr \<Rightarrow> pystr" where
  "msg_verify_fail m = [20462, 22797, 21518, 39564, 35777, 22833, 36133] @ py '': '' @ m"

definition msg_done :: "pystr \<Rightarrow> pystr" where
  "msg_done a = [23436, 25104, 32] @ a @ [32, 20462, 22797, 24182, 39564, 35777, 25104, 21151]"

definition open_and_parse :: "world \<Rightarrow> fs \<Rightarrow> path \<Rightarrow> exn + FlacProbe" where
  "open_and_parse w fs p =
     (case w_open_fault w of
        Some e \<Rightarrow> Inl e
      | None \<Rightarrow> (case fs p of None \<Rightarrow> Inl (FileNotFoundError p) | Some bs \<Rightarrow> parse_flac bs))"

definition plan_stage :: "world \<Rightarrow> args \<Rightarrow> fs \<Rightarrow> path \<Rightarrow> result \<Rightarrow> (FixPlan \<times> result) flow" where
  "plan_stage w args fs p result =
     (case open_and_parse w fs p of
        Inl e \<Rightarrow> Exit (Raised result fs e)
      | Inr probe \<Rightarrow>
          if \<not> is_flac probe
          then Exit (Returned (result\<lparr>r_status := SKIP, r_message := reason probe\<rparr>) fs)
          else (case soundfile_decode_ok w fs p of (dec_ok, dec_msg) \<Rightarrow>
            (case a_max_cover_mb args of
               Inl e \<Rightarrow> Exit (Raised result fs e)
             | Inr max_cover_bytes \<Rightarrow>
            (case decide_fix (w_which w) (w_human_bytes w) probe dec_ok (a_keep_cover args)
                    (a_meta_threshold_mb args) max_cover_bytes of
               Inl e \<Rightarrow> Exit (Raised result fs e)
             | Inr plan \<Rightarrow>
                (let result1 = result\<lparr>
                       r_reasons := (if reasons plan \<noteq> [] then join_str (py ''; '') (reasons plan)
                                     else msg_none),
                       r_action := action_name (action plan)\<rparr>
                 in if \<not> needs_fix plan
                    then Exit (Returned (result1\<lparr>r_status := OK, r_message := dec_msg\<rparr>) fs)
                    else if a_dry_run args
                    then Exit (Returned (result1\<lparr>r_status := DRYRUN,
                                 r_message := msg_dryrun (action_name (action plan))\<rparr>) fs)
                    else (case (if a_backup args then w_backup w else None) of
                            Some e \<Rightarrow> Exit (Raised result1 fs e)
                          | None \<Rightarrow> Next (plan, result1)))))))"

definition run_tool :: "world \<Rightarrow> fs \<Rightarrow> path \<Rightarrow> FixPlan \<Rightarrow> result \<Rightarrow> (bool \<times> fs) flow" where
  "run_tool w fs p plan result =
     (case action plan of
        Ffmpeg \<Rightarrow>
          (case reencode_with_ffmpeg w fs p (w_out_tmp w) of
             Inl e \<Rightarrow> Exit (Raised result fs e)
           | Inr (tool_ok, fs1) \<Rightarrow> Next (tool_ok, fs1))
      | Flac \<Rightarrow>
          (case reencode_with_flac_cli w fs p (w_out_tmp w) of
             Inl e \<Rightarrow> Exit (Raised result fs e)
           | Inr (tool_ok, fs1) \<Rightarrow> Next (tool_ok, fs1))
      | Metaflac \<Rightarrow>
          (case strip_all_metadata_with_metaflac w fs p of
             Inl e \<Rightarrow> Exit (Raised result fs e)
           | Inr (tool_ok, fs1) \<Rightarrow>
               if tool_ok
               then (case soundfile_decode_ok w fs1 p of (dec2_ok, dec2_msg) \<Rightarrow>
                       Exit (Returned (result\<lparr>r_status := (if dec2_ok then FIXED else FAIL),
                           r_message := (if dec2_ok then msg_strip_ok else msg_strip_fail)\<rparr>) fs1))
               else Next (tool_ok, fs1))
      | Skip \<Rightarrow> Exit (Returned (result\<lparr>r_status := FAIL, r_message := msg_no_tool\<rparr>) fs))"

definition execute_stage :: "world \<Rightarrow> fs \<Rightarrow> path \<Rightarrow> FixPlan \<Rightarrow> result \<Rightarrow> (result \<times> fs) flow" where
  "execute_stage w fs p plan result =
     (case (if keep_cover plan \<and> found (w_which w (py ''metaflac''))
            then export_cover_with_metaflac w else Inr False) of
        Inl e \<Rightarrow> Exit (Raised result fs e)
      | Inr cover_tmp \<Rightarrow>
          (case run_tool w fs p plan result of
             Exit out \<Rightarrow> Exit out
           | Next (tool_ok, fs1) \<Rightarrow>
               if \<not> tool_ok \<or> \<not> exists fs1 (w_out_tmp w)
               then Exit (Returned (result\<lparr>r_status := FAIL,
                            r_message := msg_generate_fail (action_name (action plan))\<rparr>) fs1)
               else if keep_cover plan \<and> cover_tmp \<and> found (w_which w (py ''metaflac''))
               then (case import_cover_with_metaflac w fs1 (w_out_tmp w) of
                       Inl e \<Rightarrow> Exit (Raised result fs1 e)
                     | Inr (import_ok, fs2) \<Rightarrow>
                         if \<not> import_ok
                         then Next (result\<lparr>r_message := r_message result @ msg_cover_fail\<rparr>, fs2)
                         else Next (result, fs2))
               else Next (result, fs1)))"

definition verify_replace :: "world \<Rightarrow> fs \<Rightarrow> path \<Rightarrow> FixPlan \<Rightarrow> result \<Rightarrow> outcome" where
  "verify_replace w fs p plan result =
     (case soundfile_decode_ok w fs (w_out_tmp w) of (dec2_ok, dec2_msg) \<Rightarrow>
        if \<not> dec2_ok
        then Returned (result\<lparr>r_status := FAIL, r_message := msg_verify_fail dec2_msg\<rparr>) fs
        else (case atomic_replace (w_faults w) fs (w_out_tmp w) p of
                (Some e, fs1) \<Rightarrow> Raised result fs1 e
              | (None, fs1) \<Rightarrow>
                  Returned (result\<lparr>r_status := FIXED,
                     r_message := msg_done (action_name (action plan))\<rparr>) fs1))"

definition scratch_body :: "world \<Rightarrow> fs \<Rightarrow> path \<Rightarrow> FixPlan \<Rightarrow> result \<Rightarrow> outcome" where
  "scratch_body w fs p plan result =
     (case execute_stage w fs p plan result of
        Exit out \<Rightarrow> out
      | Next (result1, fs1) \<Rightarrow> verify_replace w fs1 p plan result1)"

definition leave_scratch :: "world \<Rightarrow> outcome \<Rightarrow> outcome" where
  "leave_scratch w out =
     (case w_cleanup w of
        Some e \<Rightarrow> (case out of Returned r fs \<Rightarrow> Raised r fs e | Raised r fs e0 \<Rightarrow> Raised r fs e)
      | None \<Rightarrow> (case out of
                   Returned r fs \<Rightarrow> Returned r (fs(w_out_tmp w := None))
                 | Raised r fs e0 \<Rightarrow> Raised r (fs(w_out_tmp w := None)) e0))"

definition try_block :: "world \<Rightarrow> args \<Rightarrow> fs \<Rightarrow> path \<Rightarrow> result \<Rightarrow> outcome" where
  "try_block w args fs p result =
     (case plan_stage w args fs p result of
        Exit out \<Rightarrow> out
      | Next (plan, result1) \<Rightarrow>
          (case w_mkdtemp w of
             Some e \<Rightarrow> Raised result1 fs e
           | None \<Rightarrow> leave_scratch w (scratch_body w fs p plan result1)))"

definition initial_result :: "path \<Rightarrow> result" where
  "initial_result p = \<lparr>r_file = p, r_status = SKIP, r_reasons = [], r_action = [], r_message = []\<rparr>"

definition process_one :: "world \<Rightarrow> args \<Rightarrow> fs \<Rightarrow> path \<Rightarrow> result \<times> fs" where
  "process_one w args fs p =
     (let result = initial_result p
      in case try_block w args fs p result of
           Returned r fs1 \<Rightarrow> (r, fs1)
         | Raised r fs1 e \<Rightarrow>
             (r\<lparr>r_status := ERROR, r_message := class_name e @ py '': '' @ exn_text e\<rparr>, fs1))"

text \<open>\<open>reports out e\<close> says that the record returned by \<open>process_one\<close> has status
  ERROR and carries the class name and the message of the exception \<open>e\<close>. An exception raised
  inside the \<^verbatim>\<open>with\<close> block is replaced by the exception of the removal of the scratch directory
  when that removal raises as well: \<open>after_cleanup\<close>.\<close>

definition reports :: "result \<times> fs \<Rightarrow> exn \<Rightarrow> bool" where
  "reports out e =
     (r_status (fst out) = ERROR \<and> r_message (fst out) = class_name e @ py '': '' @ exn_text e)"

definition after_cleanup :: "world \<Rightarrow> exn \<Rightarrow> exn" where
  "after_cleanup w e = (case w_cleanup w of None \<Rightarrow> e | Some e' \<Rightarrow> e')"

section \<open>Re-encoding of the packed STREAMINFO fields\<close>

text \<open>Modelled from the spec: the repository decodes the packed STREAMINFO fields and has no
  encoder. The inverse is written from the layout the spec names (20-bit sample rate, 3-bit
  channel count minus one, 5-bit sample width minus one, 36-bit sample count), packed
  big-endian into the bytes that \<open>decode_streaminfo\<close> reads.\<close>

definition to_bytes_big :: "nat \<Rightarrow> int \<Rightarrow> byte list" where
  "to_bytes_big n x = map (\<lambda>i. word_of_int (drop_bit (8 * (n - Suc i)) x)) [0..<n]"

text \<open>Modelled from the spec: the re-encoding half of the STREAMINFO round trip, absent from
  the repository.\<close>

definition encode_streaminfo :: "StreamInfo \<Rightarrow> byte list" where
  "encode_streaminfo si =
     to_bytes_big 8 (push_bit (3 + 5 + 36) (sample_rate si) OR push_bit (5 + 36) (channels si - 1)
        OR push_bit 36 (bits_per_sample si - 1) OR total_samples si)"

section \<open>Example inputs\<close>

definition example_probe :: FlacProbe where
  "example_probe = \<lparr>ok = True, reason = py ''OK'', is_flac = True,
     blocks = [\<lparr>mb_type = 6, mb_length = 2000000, mb_offset = 4, mb_is_last = True\<rparr>],
     streaminfo = None, total_meta_bytes_with_headers = 2000004, picture_bytes_total = 2000000,
     unknown_block_count = 0, last_block_marked = True\<rparr>"

definition only_metaflac :: "pystr \<Rightarrow> pystr option" where
  "only_metaflac cmd = (if cmd = py ''metaflac'' then Some (py ''/usr/bin/metaflac'') else None)"

definition only_ffmpeg :: "pystr \<Rightarrow> pystr option" where
  "only_ffmpeg cmd = (if cmd = py ''ffmpeg'' then Some (py ''/usr/bin/ffmpeg'') else None)"

definition example_human_bytes :: "int \<Rightarrow> pystr" where
  "example_human_bytes n = py_str n @ py ''B''"

definition example_path :: path where
  "example_path = py ''album/song.flac''"

definition example_bytes :: "byte list" where
  "example_bytes = [0x66, 0x4C, 0x61, 0x43, 0x80, 0, 0, 0]"

definition stripped_bytes :: "byte list" where
  "stripped_bytes = [0x66, 0x4C, 0x61, 0x43, 0x81, 0, 0, 0]"

definition example_fs :: fs where
  "example_fs = (\<lambda>q. None)(example_path := Some example_bytes)"

definition example_args :: args where
  "example_args = \<lparr>a_dry_run = False, a_backup = False, a_backup_dir = py ''./.flac_bak'',
     a_keep_cover = False, a_max_cover_mb = Inr 1572864, a_meta_threshold_mb = Inr 8388608\<rparr>"

definition base_world :: world where
  "base_world = \<lparr>w_which = (\<lambda>cmd. None), w_human_bytes = example_human_bytes,
     w_open_fault = None, w_sf_decode = (\<lambda>bs. (False, py ''DECODE_FAIL'')),
     w_sf_missing = py ''DECODE_FAIL'', w_backup = None, w_mkdtemp = None, w_cleanup = None,
     w_out_tmp = py ''album/tmp/song.__fixed__.flac'', w_export_cover = Inr False,
     w_import_cover = Inr (0, None), w_ffmpeg = Inr (0, Some [9, 9]), w_mkdtemp_flac = None,
     w_flac_decode = Inr (0, True), w_flac_encode = Inr (0, Some [9, 9]), w_cleanup_flac = None,
     w_strip = Inr (0, Some stripped_bytes), w_faults = (\<lambda>op. None)\<rparr>"

definition ffmpeg_world :: world where
  "ffmpeg_world = base_world\<lparr>w_which := only_ffmpeg\<rparr>"


definition locked_world :: world where
  "locked_world = base_world\<lparr>w_open_fault := Some (PermissionError (py ''[Errno 13] Permission denied''))\<rparr>"

definition only_flac :: "pystr \<Rightarrow> pystr option" where
  "only_flac cmd = (if cmd = py ''flac'' then Some (py ''/usr/bin/flac'') else None)"

definition backup_args :: args where
  "backup_args = example_args\<lparr>a_backup := True\<rparr>"

definition backup_world :: world where
  "backup_world = ffmpeg_world\<lparr>w_backup := Some (OtherError (py ''SameFileError'')
      (py ''album/song.flac and album/song.flac are the same file''))\<rparr>"

definition flac_world :: world where
  "flac_world = base_world\<lparr>w_which := only_flac, w_flac_decode := Inl (FileNotFoundError (py ''flac''))\<rparr>"

definition busy_world :: world where
  "busy_world = ffmpeg_world\<lparr>
     w_sf_decode := (\<lambda>bs. if bs = [9, 9] then (True, py ''OK (soundfile)'') else (False, py ''DECODE_FAIL'')),
     w_faults := (\<lambda>op. if op = Unlink example_path
                         then Some (PermissionError (py ''[WinError 32] file in use''))
                       else if op = Move (py ''album/tmp/song.__fixed__.flac'') example_path
                         then Some (OtherError (py ''OSError'') (py ''[Errno 5] Input/output error''))
                       else None)\<rparr>"

definition cleanup_world :: world where
  "cleanup_world = ffmpeg_world\<lparr>w_cleanup := Some (PermissionError (py ''[WinError 32] file in use''))\<rparr>"

section \<open>Properties of the parser\<close>

lemma four_elements: "length (hdr::'a list) = 4 \<Longrightarrow> \<exists>a b c d. hdr = [a, b, c, d]"
  by (cases hdr; simp; cases "tl hdr"; simp; cases "tl (tl hdr)"; simp; cases "tl (tl (tl hdr))"; simp)

lemma read_block_total:
  assumes "length hdr = 4"
  shows "\<exists>v' pos' l. read_block bs pos1 hdr v = Inr (v', pos', l) \<and> pos1 \<le> pos'
           \<and> length (v_blocks v') = Suc (length (v_blocks v))"
proof -
  from assms obtain a b c d where "hdr = [a, b, c, d]"
    using four_elements by blast
  then show ?thesis
    by (simp add: read_block_def Let_def)
qed

lemma walk_total:
  "\<exists>v'. walk bs pos v = Inr v'
     \<and> 4 * length (v_blocks v') + pos \<le> 4 * length (v_blocks v) + max pos (length bs)"
proof (induction bs pos v rule: walk.induct)
  case (1 bs pos v)
  let ?hdr = "file_read bs pos 4"
  show ?case
  proof (cases "length ?hdr < 4")
    case True
    then show ?thesis
      by (subst walk.simps) (simp add: Let_def)
  next
    case False
    then have l: "length ?hdr = 4" and p: "pos + 4 \<le> length bs"
      by (auto simp: file_read_def)
    from read_block_total[OF l] obtain v1 pos1 last1 where
      rb: "read_block bs (pos + length ?hdr) ?hdr v = Inr (v1, pos1, last1)"
      and p1: "pos + length ?hdr \<le> pos1"
      and b1: "length (v_blocks v1) = Suc (length (v_blocks v))"
      by blast
    show ?thesis
    proof (cases last1)
      case True
      then show ?thesis
        using rb b1 p l by (subst walk.simps) (simp add: Let_def)
    next
      case nl: False
      from 1[OF refl False rb refl refl nl]
      obtain v' where w: "walk bs pos1 v1 = Inr v'"
        and bd: "4 * length (v_blocks v') + pos1 \<le> 4 * length (v_blocks v1) + max pos1 (length bs)"
        by blast
      have "walk bs pos v = Inr v'"
        using rb nl w l by (subst walk.simps) (simp add: Let_def)
      moreover have "4 * length (v_blocks v') + pos \<le> 4 * length (v_blocks v) + max pos (length bs)"
        using bd b1 p1 p l by (simp add: max_def split: if_splits)
      ultimately show ?thesis
        by blast
    qed
  qed
qed

text \<open>Claim C10. For every finite byte sequence presented as a file, \<open>parse_flac\<close> terminates
  and returns a probe without raising: the only raise of the parser, the unpacking of a header
  that does not have four bytes, is never reached, and because every iteration consumes at
  least the four header bytes the walk records at most one block for every four bytes of the
  file. Zero-length blocks, a short header, a truncated STREAMINFO payload and a length that
  seeks past the end of the file are all inputs of this theorem.\<close>

theorem parse_flac_returns:
  "\<exists>probe. parse_flac bs = Inr probe \<and> 4 * length (blocks probe) \<le> length bs"
proof (cases "file_read bs 0 4 = magic")
  case False
  then show ?thesis
    by (simp add: parse_flac_def Let_def)
next
  case True
  then have l: "length (file_read bs 0 4) = 4"
    by (simp add: magic_def)
  then have "4 \<le> length bs"
    by (simp add: file_read_def)
  moreover from walk_total[of bs 4 init_vars] obtain v' where
    "walk bs 4 init_vars = Inr v'"
    "4 * length (v_blocks v') + 4 \<le> 4 * length (v_blocks init_vars) + max 4 (length bs)"
    by blast
  ultimately show ?thesis
    using True l by (simp add: parse_flac_def Let_def init_vars_def)
qed

theorem parse_flac_returns_witness:
  "\<exists>probe. parse_flac [0x66, 0x4C, 0x61, 0x43, 0x81, 0, 0, 0xFF] = Inr probe
     \<and> 4 * length (blocks probe) \<le> length [0x66, 0x4C, 0x61, 0x43, 0x81, 0, 0, 0xFF :: byte]"
  using parse_flac_returns [of "[0x66, 0x4C, 0x61, 0x43, 0x81, 0, 0, 0xFF]"] by simp

lemma read_block_streaminfo:
  assumes "read_block bs pos1 hdr v = Inr (v', pos', l)"
    and "(v_streaminfo v \<noteq> None) = has_streaminfo_block (v_blocks v)"
  shows "(v_streaminfo v' \<noteq> None) = has_streaminfo_block (v_blocks v')"
  using assms
  by (auto simp: read_block_def Let_def has_streaminfo_block_def split: list.splits if_splits)

lemma walk_streaminfo:
  "walk bs pos v = Inr v' \<Longrightarrow> (v_streaminfo v \<noteq> None) = has_streaminfo_block (v_blocks v)
     \<Longrightarrow> (v_streaminfo v' \<noteq> None) = has_streaminfo_block (v_blocks v')"
proof (induction bs pos v rule: walk.induct)
  case (1 bs pos v)
  let ?hdr = "file_read bs pos 4"
  show ?case
  proof (cases "length ?hdr < 4")
    case True
    with "1.prems" show ?thesis
      by (subst (asm) walk.simps) (simp add: Let_def)
  next
    case False
    then have l: "length ?hdr = 4"
      by (auto simp: file_read_def)
    from read_block_total[OF l] obtain v1 pos1 last1 where
      rb: "read_block bs (pos + length ?hdr) ?hdr v = Inr (v1, pos1, last1)"
      by blast
    have s1: "(v_streaminfo v1 \<noteq> None) = has_streaminfo_block (v_blocks v1)"
      using read_block_streaminfo[OF rb "1.prems"(2)] .
    show ?thesis
    proof (cases last1)
      case True
      with "1.prems"(1) rb False have "v' = v1\<lparr>v_last_marked := True\<rparr>"
        by (subst (asm) walk.simps) (simp add: Let_def)
      with s1 show ?thesis
        by simp
    next
      case nl: False
      with "1.prems"(1) rb False have "walk bs pos1 v1 = Inr v'"
        by (subst (asm) walk.simps) (simp add: Let_def)
      then show ?thesis
        using "1.IH"[OF refl False rb refl refl nl _ s1] by simp
    qed
  qed
qed

text \<open>Claim C3, as amended. The parser decodes a STREAMINFO at every block of type 0 and
  payload length 34 that it walks, whether the block is the first one or a later one: in the
  returned probe \<open>streaminfo\<close> is present exactly when some recorded block has type 0 and
  payload length 34, and absent when none has.\<close>

theorem streaminfo_present_iff:
  assumes "parse_flac bs = Inr probe"
  shows "(streaminfo probe \<noteq> None) = has_streaminfo_block (blocks probe)"
proof (cases "file_read bs 0 4 = magic")
  case False
  with assms show ?thesis
    by (auto simp: parse_flac_def Let_def has_streaminfo_block_def)
next
  case True
  with assms obtain v where w: "walk bs (length (file_read bs 0 4)) init_vars = Inr v"
    and p: "streaminfo probe = v_streaminfo v" "blocks probe = v_blocks v"
    by (auto simp: parse_flac_def Let_def split: sum.splits)
  have "(v_streaminfo init_vars \<noteq> None) = has_streaminfo_block (v_blocks init_vars)"
    by (simp add: init_vars_def has_streaminfo_block_def)
  from walk_streaminfo[OF w this] p show ?thesis
    by simp
qed

lemma streaminfo_file_parse:
  "parse_flac ([0x66, 0x4C, 0x61, 0x43] @ [0x80, 0, 0, 34] @ replicate 34 0xFF)
     = Inr \<lparr>ok = True, reason = py ''OK'', is_flac = True,
         blocks = [\<lparr>mb_type = 0, mb_length = 34, mb_offset = 4, mb_is_last = True\<rparr>],
         streaminfo = Some \<lparr>sample_rate = 1048575, channels = 8, bits_per_sample = 32,
            total_samples = 68719476735\<rparr>,
         total_meta_bytes_with_headers = 38, picture_bytes_total = 0, unknown_block_count = 0,
         last_block_marked = True\<rparr>"
  by code_simp

theorem streaminfo_present_iff_witness:
  "(Some \<lparr>sample_rate = 1048575, channels = 8, bits_per_sample = 32, total_samples = 68719476735\<rparr>
      \<noteq> None)
   = has_streaminfo_block [\<lparr>mb_type = 0, mb_length = 34, mb_offset = 4, mb_is_last = True\<rparr>]"
  using streaminfo_present_iff [OF streaminfo_file_parse] by simp

theorem later_streaminfo_counterexample:
  "parse_flac ([0x66, 0x4C, 0x61, 0x43] @ [0x01, 0, 0, 0] @ [0x80, 0, 0, 34] @ replicate 34 0)
     = Inr \<lparr>ok = True, reason = py ''OK'', is_flac = True,
         blocks = [\<lparr>mb_type = 1, mb_length = 0, mb_offset = 4, mb_is_last = False\<rparr>,
                   \<lparr>mb_type = 0, mb_length = 34, mb_offset = 8, mb_is_last = True\<rparr>],
         streaminfo = Some \<lparr>sample_rate = 0, channels = 1, bits_per_sample = 1, total_samples = 0\<rparr>,
         total_meta_bytes_with_headers = 42, picture_bytes_total = 0, unknown_block_count = 0,
         last_block_marked = True\<rparr>"
  by code_simp

section \<open>Properties of the packed STREAMINFO fields\<close>

lemma recompose_fields:
  fixes x :: int
  assumes "take_bit 64 x = x"
  shows "push_bit 44 (drop_bit 44 x AND (push_bit 20 1 - 1)) OR push_bit 41 (drop_bit 41 x AND 7)
          OR push_bit 36 (drop_bit 36 x AND 31) OR (x AND (push_bit 36 1 - 1)) = x"
proof -
  have m20: "(push_bit 20 1 - 1 :: int) = mask 20"
    by (simp add: mask_eq_exp_minus_1)
  have m36: "(push_bit 36 1 - 1 :: int) = mask 36"
    by (simp add: mask_eq_exp_minus_1)
  have m3: "(7::int) = mask 3"
    by (simp add: mask_eq_exp_minus_1)
  have m5: "(31::int) = mask 5"
    by (simp add: mask_eq_exp_minus_1)
  have b: "\<And>n. bit x n \<Longrightarrow> n < 64"
    using assms by (metis bit_take_bit_iff)
  show ?thesis
    unfolding m20 m36 m3 m5
  proof (rule bit_eqI)
    fix n :: nat
    consider "n < 36" | "36 \<le> n \<and> n < 41" | "41 \<le> n \<and> n < 44" | "44 \<le> n \<and> n < 64" | "64 \<le> n"
      by linarith
    then show "bit (push_bit 44 (drop_bit 44 x AND mask 20) OR push_bit 41 (drop_bit 41 x AND mask 3)
          OR push_bit 36 (drop_bit 36 x AND mask 5) OR (x AND mask 36)) n = bit x n"
    proof cases
      case 1
      then show ?thesis by (auto simp add: bit_simps)
    next
      case 2
      then show ?thesis by (auto simp add: bit_simps)
    next
      case 3
      then show ?thesis by (auto simp add: bit_simps)
    next
      case 4
      then show ?thesis by (auto simp add: bit_simps)
    next
      case 5
      then show ?thesis using b[of n] by (auto simp add: bit_simps)
    qed
  qed
qed

lemma from_bytes_big_snoc: "from_bytes_big (a @ [b]) = from_bytes_big a * 256 + uint b"
  by (simp add: from_bytes_big_def)

lemma from_bytes_big_bound: "0 \<le> from_bytes_big a \<and> from_bytes_big a < 2 ^ (8 * length a)"
proof (induction a rule: rev_induct)
  case Nil
  then show ?case
    by (simp add: from_bytes_big_def)
next
  case (snoc b a)
  have u: "0 \<le> uint b" "uint b < 256"
    using uint_lt2p[of b] by simp_all
  from snoc have "from_bytes_big a * 256 + 256 \<le> 2 ^ (8 * length a) * 256"
    by simp
  moreover have "(2::int) ^ (8 * length (a @ [b])) = 2 ^ (8 * length a) * 256"
    by (simp add: power_add)
  ultimately have "from_bytes_big a * 256 + uint b < 2 ^ (8 * length (a @ [b]))"
    using u by linarith
  moreover have "0 \<le> from_bytes_big a * 256 + uint b"
    using snoc u by simp
  ultimately show ?case
    by (simp only: from_bytes_big_snoc)
qed

lemma from_bytes_big_64:
  assumes "length a \<le> 8"
  shows "take_bit 64 (from_bytes_big a) = from_bytes_big a"
proof -
  have "(2::int) ^ (8 * length a) \<le> 2 ^ 64"
    using assms by (intro power_increasing) simp_all
  with from_bytes_big_bound[of a] show ?thesis
    by (simp add: take_bit_int_eq_self)
qed

lemma from_bytes_big_drop: "drop_bit (8 * length ys) (from_bytes_big (xs @ ys)) = from_bytes_big xs"
proof (induction ys rule: rev_induct)
  case Nil
  then show ?case
    by simp
next
  case (snoc b ys)
  have u: "0 \<le> uint b" "uint b < 256"
    using uint_lt2p[of b] by simp_all
  have "from_bytes_big (xs @ ys @ [b]) = from_bytes_big (xs @ ys) * 256 + uint b"
    using from_bytes_big_snoc[of "xs @ ys" b] by simp
  moreover have "drop_bit 8 (from_bytes_big (xs @ ys) * 256 + uint b) = from_bytes_big (xs @ ys)"
    using u by (simp add: drop_bit_eq_div)
  moreover have "drop_bit (8 * length (ys @ [b])) (from_bytes_big (xs @ ys @ [b]))
      = drop_bit (8 * length ys) (drop_bit 8 (from_bytes_big (xs @ ys @ [b])))"
    by (simp add: add.commute)
  ultimately show ?case
    using snoc by simp
qed

lemma from_bytes_big_last: "(word_of_int (from_bytes_big (xs @ [b])) :: byte) = b"
proof -
  have "(word_of_int (from_bytes_big xs * 256 + uint b) :: byte) = word_of_int (uint b)"
    by (subst word_of_int_eq_iff) (simp add: take_bit_eq_mod)
  then show ?thesis
    by (simp only: from_bytes_big_snoc word_of_int_uint)
qed

lemma to_bytes_big_nth:
  assumes "i < length l"
  shows "(word_of_int (drop_bit (8 * (length l - Suc i)) (from_bytes_big l)) :: byte) = l ! i"
proof -
  have l: "l = (take i l @ [l ! i]) @ drop (Suc i) l"
    using assms by (simp add: take_Suc_conv_app_nth[symmetric])
  have n: "length (drop (Suc i) l) = length l - Suc i"
    by simp
  have "drop_bit (8 * (length l - Suc i)) (from_bytes_big l) = from_bytes_big (take i l @ [l ! i])"
    using from_bytes_big_drop[of "drop (Suc i) l" "take i l @ [l ! i]"] l n by metis
  then show ?thesis
    by (simp only: from_bytes_big_last)
qed

lemma to_bytes_big_inverse: "to_bytes_big (length l) (from_bytes_big l) = l"
  by (rule nth_equalityI) (simp_all add: to_bytes_big_def to_bytes_big_nth)

text \<open>Claim C8, as amended. The packed region that the parser decodes is the eight payload
  bytes 10 to 17 (64 bits: 20 + 3 + 5 + 36). For every STREAMINFO payload of exactly 34 bytes,
  decoding it into sample rate, channel count, bits per sample and total samples and packing
  these four fields again reproduces those eight bytes.\<close>

theorem streaminfo_roundtrip:
  assumes "length data = 34"
  shows "encode_streaminfo (decode_streaminfo data) = take 8 (drop 10 data)"
proof -
  let ?a = "take 8 (drop 10 data)"
  have la: "length ?a = 8"
    using assms by simp
  have tb: "take_bit 64 (from_bytes_big ?a) = from_bytes_big ?a"
    using la by (intro from_bytes_big_64) simp
  have "encode_streaminfo (decode_streaminfo data) = to_bytes_big 8 (from_bytes_big ?a)"
    using recompose_fields[OF tb] by (simp add: encode_streaminfo_def decode_streaminfo_def Let_def)
  also have "\<dots> = ?a"
    using to_bytes_big_inverse[of ?a] la by simp
  finally show ?thesis .
qed

theorem streaminfo_roundtrip_witness:
  "encode_streaminfo (decode_streaminfo (replicate 34 0xAB)) = replicate 8 0xAB"
  using streaminfo_roundtrip [of "replicate 34 0xAB"] by simp

theorem eighteen_bytes_counterexample:
  "length [0, 0, 0, 0, 0, 0, 0, 0, 0, 0, 0, 0, 0, 0, 0, 0, 0, 0, 0, 0, 0, 0, 0, 0, 0, 0, 0, 0, 0, 0, 0, 0, 0, 0 :: byte] = 34
   \<and> length [1, 0, 0, 0, 0, 0, 0, 0, 0, 0, 0, 0, 0, 0, 0, 0, 0, 0, 1, 0, 0, 0, 0, 0, 0, 0, 0, 0, 0, 0, 0, 0, 0, 0 :: byte] = 34
   \<and> decode_streaminfo [0, 0, 0, 0, 0, 0, 0, 0, 0, 0, 0, 0, 0, 0, 0, 0, 0, 0, 0, 0, 0, 0, 0, 0, 0, 0, 0, 0, 0, 0, 0, 0, 0, 0 :: byte]
       = decode_streaminfo [1, 0, 0, 0, 0, 0, 0, 0, 0, 0, 0, 0, 0, 0, 0, 0, 0, 0, 1, 0, 0, 0, 0, 0, 0, 0, 0, 0, 0, 0, 0, 0, 0, 0 :: byte]
   \<and> take 18 [0, 0, 0, 0, 0, 0, 0, 0, 0, 0, 0, 0, 0, 0, 0, 0, 0, 0, 0, 0, 0, 0, 0, 0, 0, 0, 0, 0, 0, 0, 0, 0, 0, 0 :: byte]
       \<noteq> take 18 [1, 0, 0, 0, 0, 0, 0, 0, 0, 0, 0, 0, 0, 0, 0, 0, 0, 0, 1, 0, 0, 0, 0, 0, 0, 0, 0, 0, 0, 0, 0, 0, 0, 0 :: byte]
   \<and> take 18 (drop 10 [0, 0, 0, 0, 0, 0, 0, 0, 0, 0, 0, 0, 0, 0, 0, 0, 0, 0, 0, 0, 0, 0, 0, 0, 0, 0, 0, 0, 0, 0, 0, 0, 0, 0 :: byte])
       \<noteq> take 18 (drop 10 [1, 0, 0, 0, 0, 0, 0, 0, 0, 0, 0, 0, 0, 0, 0, 0, 0, 0, 1, 0, 0, 0, 0, 0, 0, 0, 0, 0, 0, 0, 0, 0, 0, 0 :: byte])"
  by (simp add: decode_streaminfo_def Let_def)

section \<open>Properties of the repair decision\<close>

lemma reason_meta_distinct:
  "reason_meta s \<noteq> reason_decode"
  "reason_meta s \<noteq> reason_unknown n"
  "reason_meta s \<noteq> reason_unterminated"
  "reason_meta s \<noteq> reason_cover a b"
  by (simp_all add: reason_meta_def reason_decode_def reason_unknown_def reason_unterminated_def
      reason_cover_def)

text \<open>Claim C5. For every probe and decode result, \<open>decide_fix\<close> evaluates the five anomaly
  checks independently and records the reason of every check that applies, in the order decode
  failure, unknown blocks, missing terminator, oversized metadata, oversized cover; and
  \<open>needs_fix\<close> holds if and only if the list of reasons is not empty. (The threshold is the
  result of a conversion that succeeded.)\<close>

theorem decide_fix_reasons:
  "\<exists>plan. decide_fix which human_bytes probe decode_ok kc (Inr threshold) max_cover_bytes = Inr plan
     \<and> reasons plan =
         (if \<not> decode_ok then [reason_decode] else [])
         @ (if unknown_block_count probe > 0 then [reason_unknown (unknown_block_count probe)] else [])
         @ (if \<not> last_block_marked probe then [reason_unterminated] else [])
         @ (if total_meta_bytes_with_headers probe > threshold
            then [reason_meta (human_bytes (total_meta_bytes_with_headers probe))] else [])
         @ (if picture_bytes_total probe > max_cover_bytes
            then [reason_cover (human_bytes (picture_bytes_total probe)) (human_bytes max_cover_bytes)]
            else [])
     \<and> needs_fix plan = (reasons plan \<noteq> [])"
  by (simp add: decide_fix_def Let_def)

theorem decide_fix_reasons_witness:
  "\<exists>plan. decide_fix only_metaflac example_human_bytes example_probe False True (Inr 1000000) 1572864
        = Inr plan
     \<and> reasons plan = [reason_decode, reason_meta (example_human_bytes 2000004),
          reason_cover (example_human_bytes 2000000) (example_human_bytes 1572864)]
     \<and> needs_fix plan"
  using decide_fix_reasons [of only_metaflac example_human_bytes example_probe False True 1000000 1572864]
  by (auto simp: example_probe_def)

text \<open>Claim C4. When the total picture size exceeds the cover cap while every other anomaly
  check passes, and metaflac is installed while neither ffmpeg nor flac is, \<open>decide_fix\<close>
  returns the action metaflac, not skip; the cover reason is the only reason recorded.\<close>

theorem cover_only_picks_metaflac:
  assumes "picture_bytes_total probe > max_cover_bytes"
    and "decode_ok"
    and "\<not> unknown_block_count probe > 0"
    and "last_block_marked probe"
    and "\<not> total_meta_bytes_with_headers probe > threshold"
    and "found (which (py ''metaflac''))"
    and "\<not> found (which (py ''ffmpeg''))"
    and "\<not> found (which (py ''flac''))"
  shows "decide_fix which human_bytes probe decode_ok kc (Inr threshold) max_cover_bytes
     = Inr \<lparr>needs_fix = True,
            reasons = [reason_cover (human_bytes (picture_bytes_total probe)) (human_bytes max_cover_bytes)],
            action = Metaflac, keep_cover = False\<rparr>"
  using assms by (simp add: decide_fix_def Let_def)

theorem cover_only_picks_metaflac_witness:
  "decide_fix only_metaflac example_human_bytes example_probe True True (Inr 8388608) 1572864
     = Inr \<lparr>needs_fix = True,
            reasons = [reason_cover (example_human_bytes 2000000) (example_human_bytes 1572864)],
            action = Metaflac, keep_cover = False\<rparr>"
  using cover_only_picks_metaflac [of 1572864 example_probe True 8388608 only_metaflac
      example_human_bytes True]
  by (simp add: example_probe_def only_metaflac_def found_def py_def)

text \<open>Claim C9. \<open>decide_fix\<close> is monotonic in the metadata threshold: with the probe and all
  other inputs fixed, a threshold strictly above the probe's total metadata size yields the
  plan's reasons with the oversized-metadata reason removed, whatever the threshold was
  before, and that reason does not occur in the new plan.\<close>

theorem raised_threshold_drops_reason:
  assumes "total_meta_bytes_with_headers probe < threshold'"
  shows "\<exists>plan plan'.
      decide_fix which human_bytes probe decode_ok kc (Inr threshold) max_cover_bytes = Inr plan
    \<and> decide_fix which human_bytes probe decode_ok kc (Inr threshold') max_cover_bytes = Inr plan'
    \<and> reasons plan' = removeAll (reason_meta (human_bytes (total_meta_bytes_with_headers probe))) (reasons plan)
    \<and> reason_meta (human_bytes (total_meta_bytes_with_headers probe)) \<notin> set (reasons plan')"
  using assms reason_meta_distinct [of "human_bytes (total_meta_bytes_with_headers probe)"]
  by (simp add: decide_fix_def Let_def)

theorem raised_threshold_drops_reason_witness:
  "\<exists>plan plan'.
      decide_fix only_metaflac example_human_bytes example_probe True True (Inr 1000000) 1572864 = Inr plan
    \<and> decide_fix only_metaflac example_human_bytes example_probe True True (Inr 8388608) 1572864 = Inr plan'
    \<and> reasons plan' = removeAll (reason_meta (example_human_bytes 2000004)) (reasons plan)
    \<and> reason_meta (example_human_bytes 2000004) \<notin> set (reasons plan')"
  using raised_threshold_drops_reason [of example_probe 8388608 only_metaflac example_human_bytes
      True True 1000000 1572864]
  by (auto simp: example_probe_def)

section \<open>Properties of file replacement\<close>

lemma old_suffix_differs: "dst @ py ''.old'' \<noteq> dst"
  by (simp add: py_def)

lemma unlink_Inr: "unlink faults fs p = Inr fs' \<Longrightarrow> fs' = fs(p := None)"
  by (auto simp: unlink_def split: option.splits if_splits)

lemma replace_Inr: "replace faults fs s d = Inr fs' \<Longrightarrow> fs s \<noteq> None \<and> fs' = moved fs s d"
  by (auto simp: replace_def exists_def split: option.splits if_splits)

lemma rename_Inr: "rename faults fs s d = Inr fs' \<Longrightarrow> fs s \<noteq> None \<and> fs' = moved fs s d"
  by (auto simp: rename_def exists_def split: option.splits if_splits)

lemma move_Inr: "move faults fs s d = Inr fs' \<Longrightarrow> fs s \<noteq> None \<and> fs' = moved fs s d"
  by (auto simp: move_def exists_def split: option.splits if_splits)

lemma restore_old_raises: "fst (restore_old faults fs dst bak e) = Some e"
  by (simp add: restore_old_def split: sum.splits)

lemma old_fallback_success:
  assumes "old_fallback faults fs src dst = (None, fs')"
    and "src \<noteq> dst" and "src \<noteq> dst @ py ''.old''"
  shows "fs src \<noteq> None \<and> fs' dst = fs src"
proof -
  let ?bak = "dst @ py ''.old''"
  let ?first = "if exists fs dst then rename faults fs dst ?bak else Inr fs"
  from assms(1) obtain fs1 where f1: "?first = Inr fs1"
    using restore_old_raises[of faults fs dst ?bak]
    by (cases ?first) (auto simp: old_fallback_def Let_def dest: arg_cong[where f = fst])
  with assms(1) obtain fs2 where f2: "move faults fs1 src dst = Inr fs2"
    using restore_old_raises[of faults fs1 dst ?bak]
    by (cases "move faults fs1 src dst") (auto simp: old_fallback_def Let_def dest: arg_cong[where f = fst])
  have s1: "fs1 src = fs src"
    using f1 assms(2,3) by (auto simp: moved_def split: if_splits dest!: rename_Inr)
  from move_Inr[OF f2] have m: "fs1 src \<noteq> None" "fs2 = moved fs1 src dst"
    by simp_all
  have "fs' = fs2 \<or> fs' = fs2(?bak := None)"
    using assms(1) f1 f2
    by (auto simp: old_fallback_def Let_def split: if_splits sum.splits dest!: unlink_Inr)
  then have "fs' dst = fs2 dst"
    using old_suffix_differs[of dst] by auto
  with m s1 show ?thesis
    by (simp add: moved_def)
qed

lemma atomic_replace_success:
  assumes "atomic_replace faults fs src dst = (None, fs')"
    and "src \<noteq> dst" and "src \<noteq> dst @ py ''.old''"
  shows "fs src \<noteq> None \<and> fs' dst = fs src"
proof -
  let ?first = "if exists fs dst then unlink faults fs dst else Inr fs"
  show ?thesis
  proof (cases ?first)
    case (Inl e)
    with assms(1) have "old_fallback faults fs src dst = (None, fs')"
      by (cases e) (simp_all add: atomic_replace_def on_error_def)
    from old_fallback_success[OF this assms(2,3)] show ?thesis .
  next
    case (Inr fs1)
    then have s1: "fs1 src = fs src"
      using assms(2) by (auto split: if_splits dest!: unlink_Inr)
    show ?thesis
    proof (cases "replace faults fs1 src dst")
      case (Inl e)
      with assms(1) Inr have "old_fallback faults fs1 src dst = (None, fs')"
        by (cases e) (simp_all add: atomic_replace_def on_error_def)
      from old_fallback_success[OF this assms(2,3)] s1 show ?thesis
        by simp
    next
      case r: (Inr fs2)
      with assms(1) Inr have "fs' = fs2"
        by (simp add: atomic_replace_def)
      with replace_Inr[OF r] s1 show ?thesis
        by (simp add: moved_def)
    qed
  qed
qed

lemma old_fallback_restores:
  assumes "fs src = None" and "fs dst = Some bs" and "src \<noteq> dst @ py ''.old''"
    and "faults (Rename dst (dst @ py ''.old'')) = None"
    and "faults (Rename (dst @ py ''.old'') dst) = None"
  shows "snd (old_fallback faults fs src dst) dst = Some bs"
proof -
  let ?bak = "dst @ py ''.old''"
  have b: "?bak \<noteq> dst" by (rule old_suffix_differs)
  have r: "rename faults fs dst ?bak = Inr (moved fs dst ?bak)"
    using assms by (simp add: rename_def exists_def)
  have ms: "moved fs dst ?bak src = None"
    using assms(1,2,3) by (auto simp: moved_def)
  then have m: "move faults (moved fs dst ?bak) src dst = Inl (FileNotFoundError src)
      \<or> (\<exists>e. move faults (moved fs dst ?bak) src dst = Inl e)"
    by (auto simp: move_def exists_def split: option.splits)
  then obtain e where m: "move faults (moved fs dst ?bak) src dst = Inl e"
    by blast
  have "restore_old faults (moved fs dst ?bak) dst ?bak e = (Some e, moved (moved fs dst ?bak) ?bak dst)"
    using assms b by (simp add: restore_old_def exists_def rename_def moved_def)
  then show ?thesis
    using assms r m b by (simp add: old_fallback_def Let_def exists_def moved_def)
qed

text \<open>Claim C2. The claim says that when the temporary file never existed the target is left as
  it was before the call. The source removes the target before it tries the rename: with an
  existing target, no temporary file and no fault injected, the call raises
  \<^verbatim>\<open>FileNotFoundError\<close>, which is not a \<^verbatim>\<open>PermissionError\<close> and so bypasses the fallback, and
  the target is missing afterwards.\<close>

theorem atomic_replace_loses_target:
  "example_fs (py ''album/tmp/song.__fixed__.flac'') = None
   \<and> example_fs example_path = Some [0x66, 0x4C, 0x61, 0x43, 0x80, 0, 0, 0]
   \<and> fst (atomic_replace (\<lambda>op. None) example_fs (py ''album/tmp/song.__fixed__.flac'') example_path)
       = Some (FileNotFoundError2 (py ''album/tmp/song.__fixed__.flac'') example_path)
   \<and> snd (atomic_replace (\<lambda>op. None) example_fs (py ''album/tmp/song.__fixed__.flac'') example_path)
        example_path = None"
proof -
  have n: "py ''album/tmp/song.__fixed__.flac'' \<noteq> example_path"
    by (simp add: example_path_def py_def)
  then show ?thesis
    by (simp add: atomic_replace_def unlink_def replace_def exists_def on_error_def
        FileNotFoundError2_def example_fs_def example_bytes_def)
qed

section \<open>Properties of the per-file state machine\<close>







lemma example_parse:
  "parse_flac example_bytes = Inr \<lparr>ok = True, reason = py ''OK'', is_flac = True,
      blocks = [\<lparr>mb_type = 0, mb_length = 0, mb_offset = 4, mb_is_last = True\<rparr>],
      streaminfo = None, total_meta_bytes_with_headers = 4, picture_bytes_total = 0,
      unknown_block_count = 0, last_block_marked = True\<rparr>"
  by code_simp

lemma example_decide:
  "decide_fix which example_human_bytes
      \<lparr>ok = True, reason = py ''OK'', is_flac = True,
      blocks = [\<lparr>mb_type = 0, mb_length = 0, mb_offset = 4, mb_is_last = True\<rparr>],
      streaminfo = None, total_meta_bytes_with_headers = 4, picture_bytes_total = 0,
      unknown_block_count = 0, last_block_marked = True\<rparr> False False (Inr 8388608) 1572864
   = Inr \<lparr>needs_fix = True, reasons = [reason_decode],
       action = (if found (which (py ''ffmpeg'')) then Ffmpeg
                 else if found (which (py ''flac'')) then Flac
                 else if found (which (py ''metaflac'')) then Metaflac else Skip),
       keep_cover = False\<rparr>"
  by (simp add: decide_fix_def Let_def reason_decode_def cover_marker_def py_def)

lemma which_examples:
  "found (only_ffmpeg (py ''ffmpeg''))"
  "found (only_metaflac (py ''metaflac''))"
  "\<not> found (only_metaflac (py ''ffmpeg''))"
  "\<not> found (only_metaflac (py ''flac''))"
  by (simp_all add: only_ffmpeg_def only_metaflac_def found_def py_def)







lemma plan_stage_status:
  assumes "r_status r \<noteq> ERROR"
  shows "(case plan_stage w args fs p r of
            Next (plan, r1) \<Rightarrow> r_status r1 \<noteq> ERROR
          | Exit (Returned r1 fs1) \<Rightarrow> r_status r1 \<noteq> ERROR
          | Exit (Raised r1 fs1 e) \<Rightarrow> True)"
  using assms
  by (auto simp: plan_stage_def Let_def split: sum.splits prod.splits option.splits if_splits)

lemma run_tool_status:
  "(case run_tool w fs p plan r of
      Next x \<Rightarrow> True
    | Exit (Returned r1 fs1) \<Rightarrow> r_status r1 \<noteq> ERROR
    | Exit (Raised r1 fs1 e) \<Rightarrow> True)"
  by (cases "action plan") (auto simp: run_tool_def split: sum.splits prod.splits if_splits)

lemma execute_stage_status:
  assumes "r_status r \<noteq> ERROR"
  shows "(case execute_stage w fs p plan r of
            Next (r1, fs1) \<Rightarrow> r_status r1 \<noteq> ERROR
          | Exit (Returned r1 fs1) \<Rightarrow> r_status r1 \<noteq> ERROR
          | Exit (Raised r1 fs1 e) \<Rightarrow> True)"
proof (cases "run_tool w fs p plan r")
  case (Next x)
  with assms show ?thesis
    by (auto simp: execute_stage_def split: sum.splits prod.splits if_splits)
next
  case (Exit out)
  with run_tool_status[of w fs p plan r] show ?thesis
    by (auto simp: execute_stage_def split: sum.splits outcome.splits)
qed

lemma verify_replace_status:
  "(case verify_replace w fs p plan r of
      Returned r1 fs1 \<Rightarrow> r_status r1 \<noteq> ERROR
    | Raised r1 fs1 e \<Rightarrow> True)"
  by (auto simp: verify_replace_def split: prod.splits option.splits)

lemma scratch_body_status:
  assumes "r_status r \<noteq> ERROR"
  shows "(case scratch_body w fs p plan r of
      Returned r1 fs1 \<Rightarrow> r_status r1 \<noteq> ERROR
    | Raised r1 fs1 e \<Rightarrow> True)"
proof (cases "execute_stage w fs p plan r")
  case (Next x)
  then show ?thesis
    using verify_replace_status[of w "snd x" p plan "fst x"]
    by (cases x) (simp add: scratch_body_def)
next
  case (Exit out)
  with execute_stage_status[OF assms, of w fs p plan] show ?thesis
    by (simp add: scratch_body_def)
qed

lemma leave_scratch_status:
  assumes "(case out of Returned r1 fs1 \<Rightarrow> r_status r1 \<noteq> ERROR | Raised r1 fs1 e \<Rightarrow> True)"
  shows "(case leave_scratch w out of Returned r1 fs1 \<Rightarrow> r_status r1 \<noteq> ERROR | Raised r1 fs1 e \<Rightarrow> True)"
  using assms by (auto simp: leave_scratch_def split: option.splits outcome.splits)

lemma try_block_status:
  assumes "r_status r \<noteq> ERROR"
  shows "(case try_block w args fs p r of
      Returned r1 fs1 \<Rightarrow> r_status r1 \<noteq> ERROR
    | Raised r1 fs1 e \<Rightarrow> True)"
proof (cases "plan_stage w args fs p r")
  case (Exit out)
  with plan_stage_status[OF assms, of w args fs p] show ?thesis
    by (simp add: try_block_def)
next
  case (Next x)
  obtain plan r1 where x: "x = (plan, r1)"
    by (cases x)
  with Next plan_stage_status[OF assms, of w args fs p] have s: "r_status r1 \<noteq> ERROR"
    by simp
  show ?thesis
  proof (cases "w_mkdtemp w")
    case None
    with Next x show ?thesis
      using leave_scratch_status[OF scratch_body_status[OF s, of w fs p plan], of w]
      by (simp add: try_block_def)
  next
    case (Some e)
    with Next x show ?thesis
      by (simp add: try_block_def)
  qed
qed

lemma raised_reports:
  "try_block w args fs p (initial_result p) = Raised r fs' e \<Longrightarrow> reports (process_one w args fs p) e"
  by (simp add: process_one_def reports_def Let_def)

lemma scratch_raised_reports:
  assumes "plan_stage w args fs p (initial_result p) = Next (plan, r0)"
    and "w_mkdtemp w = None"
    and "scratch_body w fs p plan r0 = Raised r fs' e"
  shows "reports (process_one w args fs p) (after_cleanup w e)"
proof (cases "w_cleanup w")
  case None
  with assms have "try_block w args fs p (initial_result p) = Raised r (fs'(w_out_tmp w := None)) e"
    by (simp add: try_block_def leave_scratch_def)
  from raised_reports[OF this] None show ?thesis
    by (simp add: after_cleanup_def)
next
  case (Some e')
  with assms have "try_block w args fs p (initial_result p) = Raised r fs' e'"
    by (simp add: try_block_def leave_scratch_def)
  from raised_reports[OF this] Some show ?thesis
    by (simp add: after_cleanup_def)
qed

lemma execute_raised:
  "execute_stage w fs p plan r0 = Exit (Raised r fs' e) \<Longrightarrow> scratch_body w fs p plan r0 = Raised r fs' e"
  by (simp add: scratch_body_def)

lemma open_fault_reports:
  "w_open_fault w = Some e \<Longrightarrow> reports (process_one w args fs p) e"
  by (rule raised_reports) (simp add: try_block_def plan_stage_def open_and_parse_def)

lemma missing_file_reports:
  "w_open_fault w = None \<Longrightarrow> fs p = None \<Longrightarrow> reports (process_one w args fs p) (FileNotFoundError p)"
  by (rule raised_reports) (simp add: try_block_def plan_stage_def open_and_parse_def)

lemma max_cover_reports:
  "open_and_parse w fs p = Inr probe \<Longrightarrow> is_flac probe \<Longrightarrow> a_max_cover_mb args = Inl e
     \<Longrightarrow> reports (process_one w args fs p) e"
  by (rule raised_reports) (simp add: try_block_def plan_stage_def split: prod.splits)

lemma threshold_reports:
  "open_and_parse w fs p = Inr probe \<Longrightarrow> is_flac probe \<Longrightarrow> a_max_cover_mb args = Inr mc
     \<Longrightarrow> a_meta_threshold_mb args = Inl e \<Longrightarrow> reports (process_one w args fs p) e"
  by (rule raised_reports) (simp add: try_block_def plan_stage_def decide_fix_def Let_def split: prod.splits)

lemma backup_reports:
  assumes "open_and_parse w fs p = Inr probe" and "is_flac probe" and "a_max_cover_mb args = Inr mc"
    and "decide_fix (w_which w) (w_human_bytes w) probe (fst (soundfile_decode_ok w fs p))
           (a_keep_cover args) (a_meta_threshold_mb args) mc = Inr plan"
    and "needs_fix plan" and "\<not> a_dry_run args" and "a_backup args" and "w_backup w = Some e"
  shows "reports (process_one w args fs p) e"
proof -
  have "\<exists>r. try_block w args fs p (initial_result p) = Raised r fs e"
    using assms
    by (cases "soundfile_decode_ok w fs p") (simp add: try_block_def plan_stage_def Let_def)
  then show ?thesis
    using raised_reports by blast
qed

lemma mkdtemp_reports:
  "plan_stage w args fs p (initial_result p) = Next (plan, r0) \<Longrightarrow> w_mkdtemp w = Some e
     \<Longrightarrow> reports (process_one w args fs p) e"
  by (rule raised_reports[where r = r0 and fs' = fs]) (simp add: try_block_def)

lemma cleanup_reports:
  assumes "plan_stage w args fs p (initial_result p) = Next (plan, r0)" and "w_mkdtemp w = None"
    and "w_cleanup w = Some e"
  shows "reports (process_one w args fs p) e"
proof -
  have "\<exists>r fs'. try_block w args fs p (initial_result p) = Raised r fs' e"
    using assms
    by (cases "scratch_body w fs p plan r0") (simp_all add: try_block_def leave_scratch_def)
  then show ?thesis
    using raised_reports by blast
qed

lemma export_cover_raised:
  "keep_cover plan \<Longrightarrow> found (w_which w (py ''metaflac'')) \<Longrightarrow> w_export_cover w = Inl e
     \<Longrightarrow> execute_stage w fs p plan r = Exit (Raised r fs e)"
  by (simp add: execute_stage_def export_cover_with_metaflac_def)

lemma tool_raised:
  "(if keep_cover plan \<and> found (w_which w (py ''metaflac''))
     then export_cover_with_metaflac w else Inr False) = Inr c
   \<Longrightarrow> run_tool w fs p plan r = Exit (Raised r fs e)
   \<Longrightarrow> execute_stage w fs p plan r = Exit (Raised r fs e)"
  by (simp add: execute_stage_def)

lemma ffmpeg_raised:
  "action plan = Ffmpeg \<Longrightarrow> w_ffmpeg w = Inl e \<Longrightarrow> run_tool w fs p plan r = Exit (Raised r fs e)"
  by (simp add: run_tool_def reencode_with_ffmpeg_def)

lemma flac_raised:
  "action plan = Flac \<Longrightarrow> reencode_with_flac_cli w fs p (w_out_tmp w) = Inl e
     \<Longrightarrow> run_tool w fs p plan r = Exit (Raised r fs e)"
  by (simp add: run_tool_def)

lemma flac_cli_faults:
  "w_mkdtemp_flac w = Some e \<Longrightarrow> reencode_with_flac_cli w fs src dst = Inl e"
  "w_mkdtemp_flac w = None \<Longrightarrow> w_cleanup_flac w = Some e \<Longrightarrow> reencode_with_flac_cli w fs src dst = Inl e"
  "w_mkdtemp_flac w = None \<Longrightarrow> w_cleanup_flac w = None \<Longrightarrow> w_flac_decode w = Inl e
     \<Longrightarrow> reencode_with_flac_cli w fs src dst = Inl e"
  "w_mkdtemp_flac w = None \<Longrightarrow> w_cleanup_flac w = None \<Longrightarrow> w_flac_decode w = Inr (0, True)
     \<Longrightarrow> w_flac_encode w = Inl e \<Longrightarrow> reencode_with_flac_cli w fs src dst = Inl e"
  by (simp_all add: reencode_with_flac_cli_def flac_cli_body_def Let_def)

lemma strip_raised:
  "action plan = Metaflac \<Longrightarrow> found (w_which w (py ''metaflac'')) \<Longrightarrow> w_strip w = Inl e
     \<Longrightarrow> run_tool w fs p plan r = Exit (Raised r fs e)"
  by (simp add: run_tool_def strip_all_metadata_with_metaflac_def)

lemma import_cover_raised:
  "(if keep_cover plan \<and> found (w_which w (py ''metaflac''))
     then export_cover_with_metaflac w else Inr False) = Inr True
   \<Longrightarrow> keep_cover plan \<Longrightarrow> found (w_which w (py ''metaflac''))
   \<Longrightarrow> run_tool w fs p plan r = Next (True, fs1) \<Longrightarrow> exists fs1 (w_out_tmp w)
   \<Longrightarrow> w_import_cover w = Inl e
   \<Longrightarrow> execute_stage w fs p plan r = Exit (Raised r fs1 e)"
  by (simp add: execute_stage_def import_cover_with_metaflac_def)

lemma replace_raised:
  assumes "execute_stage w fs p plan r0 = Next (r1, fs1)"
    and "fst (soundfile_decode_ok w fs1 (w_out_tmp w))"
    and "fst (atomic_replace (w_faults w) fs1 (w_out_tmp w) p) = Some e"
  shows "\<exists>fs2. scratch_body w fs p plan r0 = Raised r1 fs2 e"
  using assms
  by (cases "soundfile_decode_ok w fs1 (w_out_tmp w)"; cases "atomic_replace (w_faults w) fs1 (w_out_tmp w) p")
     (simp add: scratch_body_def verify_replace_def)

lemma locked_target_move_fails:
  assumes "exists fs dst" and "faults (Unlink dst) = Some (PermissionError m)"
    and "faults (Rename dst (dst @ py ''.old'')) = None"
    and "faults (Move src dst) = Some e"
  shows "fst (atomic_replace faults fs src dst) = Some e"
proof -
  have "atomic_replace faults fs src dst = old_fallback faults fs src dst"
    using assms(1,2) by (simp add: atomic_replace_def unlink_def on_error_def)
  moreover have "old_fallback faults fs src dst
      = restore_old faults (moved fs dst (dst @ py ''.old'')) dst (dst @ py ''.old'') e"
    using assms by (simp add: old_fallback_def Let_def rename_def move_def)
  ultimately show ?thesis
    by (simp add: restore_old_raises)
qed

lemma no_exception_no_error:
  "(case try_block w args fs p (initial_result p) of
      Raised r fs1 e \<Rightarrow>
        process_one w args fs p
          = (r\<lparr>r_status := ERROR, r_message := class_name e @ py '': '' @ exn_text e\<rparr>, fs1)
    | Returned r fs1 \<Rightarrow> process_one w args fs p = (r, fs1) \<and> r_status r \<noteq> ERROR)"
proof -
  have "r_status (initial_result p) \<noteq> ERROR"
    by (simp add: initial_result_def)
  from try_block_status[OF this, of w args fs p] show ?thesis
    by (simp add: process_one_def Let_def split: outcome.splits)
qed

lemma which_flac:
  "\<not> found (only_flac (py ''ffmpeg''))" "found (only_flac (py ''flac''))"
  by (simp_all add: only_flac_def found_def py_def)

lemma example_open:
  "open_and_parse ffmpeg_world example_fs example_path
     = Inr \<lparr>ok = True, reason = py ''OK'', is_flac = True,
         blocks = [\<lparr>mb_type = 0, mb_length = 0, mb_offset = 4, mb_is_last = True\<rparr>],
         streaminfo = None, total_meta_bytes_with_headers = 4, picture_bytes_total = 0,
         unknown_block_count = 0, last_block_marked = True\<rparr>"
  by (simp add: open_and_parse_def ffmpeg_world_def base_world_def example_fs_def example_parse)

lemma example_plan_flac:
  "plan_stage flac_world example_args example_fs example_path (initial_result example_path)
     = Next (\<lparr>needs_fix = True, reasons = [reason_decode], action = Flac, keep_cover = False\<rparr>,
             (initial_result example_path)\<lparr>r_reasons := reason_decode, r_action := py ''flac''\<rparr>)"
  by (simp add: plan_stage_def open_and_parse_def flac_world_def base_world_def example_fs_def
      example_parse example_args_def soundfile_decode_ok_def example_decide which_flac)

lemma example_plan_busy:
  "plan_stage busy_world example_args example_fs example_path (initial_result example_path)
     = Next (\<lparr>needs_fix = True, reasons = [reason_decode], action = Ffmpeg, keep_cover = False\<rparr>,
             (initial_result example_path)\<lparr>r_reasons := reason_decode, r_action := py ''ffmpeg''\<rparr>)"
proof -
  have "example_bytes \<noteq> [9, 9]"
    by (simp add: example_bytes_def)
  then show ?thesis
    by (simp add: plan_stage_def open_and_parse_def busy_world_def ffmpeg_world_def base_world_def
        example_fs_def example_parse example_args_def soundfile_decode_ok_def example_decide
        which_examples)
qed

lemma example_plan_cleanup:
  "plan_stage cleanup_world example_args example_fs example_path (initial_result example_path)
     = Next (\<lparr>needs_fix = True, reasons = [reason_decode], action = Ffmpeg, keep_cover = False\<rparr>,
             (initial_result example_path)\<lparr>r_reasons := reason_decode, r_action := py ''ffmpeg''\<rparr>)"
  by (simp add: plan_stage_def open_and_parse_def cleanup_world_def ffmpeg_world_def base_world_def
      example_fs_def example_parse example_args_def soundfile_decode_ok_def example_decide
      which_examples)

text \<open>Claim C6. \<open>process_one\<close> never propagates an exception. A failure at any stage inside
  the \<^verbatim>\<open>try\<close> block gives status ERROR and the message made of the class name and the message
  of the exception: opening or reading the file, a missing file, either float conversion, the
  backup, creating the scratch directory, removing it, the cover export, the launch of ffmpeg,
  each step of the flac re-encoder (its own scratch directory, its removal, the decode, the
  encode), the metaflac strip, the cover import, and the replacement of the original, both for
  whatever \<open>atomic_replace\<close> raises and in particular when the target is in use, is set aside and
  the move into place fails. Inside the scratch directory the exception reported is the one of
  the directory's removal when that raises too. Failures that the decoder catches itself are
  decode failures and not exceptions of a stage. When no exception leaves the \<^verbatim>\<open>try\<close> block the
  record is returned as the stage left it and its status is not ERROR.\<close>

theorem process_one_catches:
  "(w_open_fault w = Some e \<longrightarrow> reports (process_one w args fs p) e)
 \<and> (w_open_fault w = None \<and> fs p = None \<longrightarrow> reports (process_one w args fs p) (FileNotFoundError p))
 \<and> (open_and_parse w fs p = Inr probe \<and> is_flac probe \<and> a_max_cover_mb args = Inl e
      \<longrightarrow> reports (process_one w args fs p) e)
 \<and> (open_and_parse w fs p = Inr probe \<and> is_flac probe \<and> a_max_cover_mb args = Inr mc
      \<and> a_meta_threshold_mb args = Inl e
      \<longrightarrow> reports (process_one w args fs p) e)
 \<and> (open_and_parse w fs p = Inr probe \<and> is_flac probe \<and> a_max_cover_mb args = Inr mc
      \<and> decide_fix (w_which w) (w_human_bytes w) probe (fst (soundfile_decode_ok w fs p))
           (a_keep_cover args) (a_meta_threshold_mb args) mc = Inr plan
      \<and> needs_fix plan \<and> \<not> a_dry_run args \<and> a_backup args \<and> w_backup w = Some e
      \<longrightarrow> reports (process_one w args fs p) e)
 \<and> (plan_stage w args fs p (initial_result p) = Next (plan, r0) \<and> w_mkdtemp w = Some e
      \<longrightarrow> reports (process_one w args fs p) e)
 \<and> (plan_stage w args fs p (initial_result p) = Next (plan, r0) \<and> w_mkdtemp w = None
      \<and> w_cleanup w = Some e
      \<longrightarrow> reports (process_one w args fs p) e)
 \<and> (plan_stage w args fs p (initial_result p) = Next (plan, r0) \<and> w_mkdtemp w = None
      \<and> keep_cover plan \<and> found (w_which w (py ''metaflac'')) \<and> w_export_cover w = Inl e
      \<longrightarrow> reports (process_one w args fs p) (after_cleanup w e))
 \<and> (plan_stage w args fs p (initial_result p) = Next (plan, r0) \<and> w_mkdtemp w = None
      \<and> (if keep_cover plan \<and> found (w_which w (py ''metaflac''))
          then export_cover_with_metaflac w else Inr False) = Inr c
      \<and> action plan = Ffmpeg \<and> w_ffmpeg w = Inl e
      \<longrightarrow> reports (process_one w args fs p) (after_cleanup w e))
 \<and> (plan_stage w args fs p (initial_result p) = Next (plan, r0) \<and> w_mkdtemp w = None
      \<and> (if keep_cover plan \<and> found (w_which w (py ''metaflac''))
          then export_cover_with_metaflac w else Inr False) = Inr c
      \<and> action plan = Flac \<and> w_mkdtemp_flac w = Some e
      \<longrightarrow> reports (process_one w args fs p) (after_cleanup w e))
 \<and> (plan_stage w args fs p (initial_result p) = Next (plan, r0) \<and> w_mkdtemp w = None
      \<and> (if keep_cover plan \<and> found (w_which w (py ''metaflac''))
          then export_cover_with_metaflac w else Inr False) = Inr c
      \<and> action plan = Flac \<and> w_mkdtemp_flac w = None \<and> w_cleanup_flac w = Some e
      \<longrightarrow> reports (process_one w args fs p) (after_cleanup w e))
 \<and> (plan_stage w args fs p (initial_result p) = Next (plan, r0) \<and> w_mkdtemp w = None
      \<and> (if keep_cover plan \<and> found (w_which w (py ''metaflac''))
          then export_cover_with_metaflac w else Inr False) = Inr c
      \<and> action plan = Flac \<and> w_mkdtemp_flac w = None \<and> w_cleanup_flac w = None
      \<and> w_flac_decode w = Inl e
      \<longrightarrow> reports (process_one w args fs p) (after_cleanup w e))
 \<and> (plan_stage w args fs p (initial_result p) = Next (plan, r0) \<and> w_mkdtemp w = None
      \<and> (if keep_cover plan \<and> found (w_which w (py ''metaflac''))
          then export_cover_with_metaflac w else Inr False) = Inr c
      \<and> action plan = Flac \<and> w_mkdtemp_flac w = None \<and> w_cleanup_flac w = None
      \<and> w_flac_decode w = Inr (0, True) \<and> w_flac_encode w = Inl e
      \<longrightarrow> reports (process_one w args fs p) (after_cleanup w e))
 \<and> (plan_stage w args fs p (initial_result p) = Next (plan, r0) \<and> w_mkdtemp w = None
      \<and> (if keep_cover plan \<and> found (w_which w (py ''metaflac''))
          then export_cover_with_metaflac w else Inr False) = Inr c
      \<and> action plan = Metaflac \<and> found (w_which w (py ''metaflac'')) \<and> w_strip w = Inl e
      \<longrightarrow> reports (process_one w args fs p) (after_cleanup w e))
 \<and> (plan_stage w args fs p (initial_result p) = Next (plan, r0) \<and> w_mkdtemp w = None
      \<and> (if keep_cover plan \<and> found (w_which w (py ''metaflac''))
          then export_cover_with_metaflac w else Inr False) = Inr True
      \<and> keep_cover plan \<and> found (w_which w (py ''metaflac''))
      \<and> run_tool w fs p plan r0 = Next (True, fs1) \<and> exists fs1 (w_out_tmp w)
      \<and> w_import_cover w = Inl e
      \<longrightarrow> reports (process_one w args fs p) (after_cleanup w e))
 \<and> (plan_stage w args fs p (initial_result p) = Next (plan, r0) \<and> w_mkdtemp w = None
      \<and> execute_stage w fs p plan r0 = Next (r1, fs1)
      \<and> fst (soundfile_decode_ok w fs1 (w_out_tmp w))
      \<and> fst (atomic_replace (w_faults w) fs1 (w_out_tmp w) p) = Some e
      \<longrightarrow> reports (process_one w args fs p) (after_cleanup w e))
 \<and> (plan_stage w args fs p (initial_result p) = Next (plan, r0) \<and> w_mkdtemp w = None
      \<and> execute_stage w fs p plan r0 = Next (r1, fs1)
      \<and> fst (soundfile_decode_ok w fs1 (w_out_tmp w))
      \<and> exists fs1 p \<and> w_faults w (Unlink p) = Some (PermissionError m)
      \<and> w_faults w (Rename p (p @ py ''.old'')) = None
      \<and> w_faults w (Move (w_out_tmp w) p) = Some e
      \<longrightarrow> reports (process_one w args fs p) (after_cleanup w e))
 \<and> (case try_block w args fs p (initial_result p) of
      Raised r fs2 x \<Rightarrow>
        process_one w args fs p
          = (r\<lparr>r_status := ERROR, r_message := class_name x @ py '': '' @ exn_text x\<rparr>, fs2)
    | Returned r fs2 \<Rightarrow> process_one w args fs p = (r, fs2) \<and> r_status r \<noteq> ERROR)"
proof -
  note scr = scratch_raised_reports [OF _ _ execute_raised]
  have c1: "w_open_fault w = Some e \<longrightarrow> reports (process_one w args fs p) e"
    by (simp add: open_fault_reports)
  have c2: "w_open_fault w = None \<and> fs p = None
      \<longrightarrow> reports (process_one w args fs p) (FileNotFoundError p)"
    by (simp add: missing_file_reports)
  have c3: "open_and_parse w fs p = Inr probe \<and> is_flac probe \<and> a_max_cover_mb args = Inl e
      \<longrightarrow> reports (process_one w args fs p) e"
    using max_cover_reports by blast
  have c4: "open_and_parse w fs p = Inr probe \<and> is_flac probe \<and> a_max_cover_mb args = Inr mc
      \<and> a_meta_threshold_mb args = Inl e
      \<longrightarrow> reports (process_one w args fs p) e"
    using threshold_reports by blast
  have c5: "open_and_parse w fs p = Inr probe \<and> is_flac probe \<and> a_max_cover_mb args = Inr mc
      \<and> decide_fix (w_which w) (w_human_bytes w) probe (fst (soundfile_decode_ok w fs p))
           (a_keep_cover args) (a_meta_threshold_mb args) mc = Inr plan
      \<and> needs_fix plan \<and> \<not> a_dry_run args \<and> a_backup args \<and> w_backup w = Some e
      \<longrightarrow> reports (process_one w args fs p) e"
    using backup_reports by blast
  have c6: "plan_stage w args fs p (initial_result p) = Next (plan, r0) \<and> w_mkdtemp w = Some e
      \<longrightarrow> reports (process_one w args fs p) e"
    using mkdtemp_reports by blast
  have c7: "plan_stage w args fs p (initial_result p) = Next (plan, r0) \<and> w_mkdtemp w = None
      \<and> w_cleanup w = Some e
      \<longrightarrow> reports (process_one w args fs p) e"
    using cleanup_reports by blast
  have c8: "plan_stage w args fs p (initial_result p) = Next (plan, r0) \<and> w_mkdtemp w = None
      \<and> keep_cover plan \<and> found (w_which w (py ''metaflac'')) \<and> w_export_cover w = Inl e
      \<longrightarrow> reports (process_one w args fs p) (after_cleanup w e)"
    using scr [OF _ _ export_cover_raised] by blast
  have c9: "plan_stage w args fs p (initial_result p) = Next (plan, r0) \<and> w_mkdtemp w = None
      \<and> (if keep_cover plan \<and> found (w_which w (py ''metaflac''))
          then export_cover_with_metaflac w else Inr False) = Inr c
      \<and> action plan = Ffmpeg \<and> w_ffmpeg w = Inl e
      \<longrightarrow> reports (process_one w args fs p) (after_cleanup w e)"
    using scr [OF _ _ tool_raised, OF _ _ _ ffmpeg_raised] by blast
  have c10: "plan_stage w args fs p (initial_result p) = Next (plan, r0) \<and> w_mkdtemp w = None
      \<and> (if keep_cover plan \<and> found (w_which w (py ''metaflac''))
          then export_cover_with_metaflac w else Inr False) = Inr c
      \<and> action plan = Flac \<and> w_mkdtemp_flac w = Some e
      \<longrightarrow> reports (process_one w args fs p) (after_cleanup w e)"
    using scr [OF _ _ tool_raised, OF _ _ _ flac_raised, OF _ _ _ _ flac_cli_faults(1)] by blast
  have c11: "plan_stage w args fs p (initial_result p) = Next (plan, r0) \<and> w_mkdtemp w = None
      \<and> (if keep_cover plan \<and> found (w_which w (py ''metaflac''))
          then export_cover_with_metaflac w else Inr False) = Inr c
      \<and> action plan = Flac \<and> w_mkdtemp_flac w = None \<and> w_cleanup_flac w = Some e
      \<longrightarrow> reports (process_one w args fs p) (after_cleanup w e)"
    using scr [OF _ _ tool_raised, OF _ _ _ flac_raised, OF _ _ _ _ flac_cli_faults(2)] by blast
  have c12: "plan_stage w args fs p (initial_result p) = Next (plan, r0) \<and> w_mkdtemp w = None
      \<and> (if keep_cover plan \<and> found (w_which w (py ''metaflac''))
          then export_cover_with_metaflac w else Inr False) = Inr c
      \<and> action plan = Flac \<and> w_mkdtemp_flac w = None \<and> w_cleanup_flac w = None
      \<and> w_flac_decode w = Inl e
      \<longrightarrow> reports (process_one w args fs p) (after_cleanup w e)"
    using scr [OF _ _ tool_raised, OF _ _ _ flac_raised, OF _ _ _ _ flac_cli_faults(3)] by blast
  have c13: "plan_stage w args fs p (initial_result p) = Next (plan, r0) \<and> w_mkdtemp w = None
      \<and> (if keep_cover plan \<and> found (w_which w (py ''metaflac''))
          then export_cover_with_metaflac w else Inr False) = Inr c
      \<and> action plan = Flac \<and> w_mkdtemp_flac w = None \<and> w_cleanup_flac w = None
      \<and> w_flac_decode w = Inr (0, True) \<and> w_flac_encode w = Inl e
      \<longrightarrow> reports (process_one w args fs p) (after_cleanup w e)"
    using scr [OF _ _ tool_raised, OF _ _ _ flac_raised, OF _ _ _ _ flac_cli_faults(4)] by blast
  have c14: "plan_stage w args fs p (initial_result p) = Next (plan, r0) \<and> w_mkdtemp w = None
      \<and> (if keep_cover plan \<and> found (w_which w (py ''metaflac''))
          then export_cover_with_metaflac w else Inr False) = Inr c
      \<and> action plan = Metaflac \<and> found (w_which w (py ''metaflac'')) \<and> w_strip w = Inl e
      \<longrightarrow> reports (process_one w args fs p) (after_cleanup w e)"
    using scr [OF _ _ tool_raised, OF _ _ _ strip_raised] by blast
  have c15: "plan_stage w args fs p (initial_result p) = Next (plan, r0) \<and> w_mkdtemp w = None
      \<and> (if keep_cover plan \<and> found (w_which w (py ''metaflac''))
          then export_cover_with_metaflac w else Inr False) = Inr True
      \<and> keep_cover plan \<and> found (w_which w (py ''metaflac''))
      \<and> run_tool w fs p plan r0 = Next (True, fs1) \<and> exists fs1 (w_out_tmp w)
      \<and> w_import_cover w = Inl e
      \<longrightarrow> reports (process_one w args fs p) (after_cleanup w e)"
    using scr [OF _ _ import_cover_raised] by blast
  have c16: "plan_stage w args fs p (initial_result p) = Next (plan, r0) \<and> w_mkdtemp w = None
      \<and> execute_stage w fs p plan r0 = Next (r1, fs1)
      \<and> fst (soundfile_decode_ok w fs1 (w_out_tmp w))
      \<and> fst (atomic_replace (w_faults w) fs1 (w_out_tmp w) p) = Some e
      \<longrightarrow> reports (process_one w args fs p) (after_cleanup w e)"
  proof (intro impI, elim conjE)
    assume s: "plan_stage w args fs p (initial_result p) = Next (plan, r0)" "w_mkdtemp w = None"
      and x: "execute_stage w fs p plan r0 = Next (r1, fs1)"
        "fst (soundfile_decode_ok w fs1 (w_out_tmp w))"
        "fst (atomic_replace (w_faults w) fs1 (w_out_tmp w) p) = Some e"
    from replace_raised [OF x] obtain fs2 where "scratch_body w fs p plan r0 = Raised r1 fs2 e"
      by blast
    from scratch_raised_reports [OF s this]
    show "reports (process_one w args fs p) (after_cleanup w e)" .
  qed
  have c17: "plan_stage w args fs p (initial_result p) = Next (plan, r0) \<and> w_mkdtemp w = None
      \<and> execute_stage w fs p plan r0 = Next (r1, fs1)
      \<and> fst (soundfile_decode_ok w fs1 (w_out_tmp w))
      \<and> exists fs1 p \<and> w_faults w (Unlink p) = Some (PermissionError m)
      \<and> w_faults w (Rename p (p @ py ''.old'')) = None
      \<and> w_faults w (Move (w_out_tmp w) p) = Some e
      \<longrightarrow> reports (process_one w args fs p) (after_cleanup w e)"
  proof (intro impI, elim conjE)
    assume s: "plan_stage w args fs p (initial_result p) = Next (plan, r0)" "w_mkdtemp w = None"
      and x: "execute_stage w fs p plan r0 = Next (r1, fs1)"
        "fst (soundfile_decode_ok w fs1 (w_out_tmp w))"
      and f: "exists fs1 p" "w_faults w (Unlink p) = Some (PermissionError m)"
        "w_faults w (Rename p (p @ py ''.old'')) = None"
        "w_faults w (Move (w_out_tmp w) p) = Some e"
    from replace_raised [OF x locked_target_move_fails [OF f]]
    obtain fs2 where "scratch_body w fs p plan r0 = Raised r1 fs2 e"
      by blast
    from scratch_raised_reports [OF s this]
    show "reports (process_one w args fs p) (after_cleanup w e)" .
  qed
  note c18 = no_exception_no_error [of w args fs p]
  show ?thesis
    by (intro conjI c1 c2 c3 c4 c5 c6 c7 c8 c9 c10 c11 c12 c13 c14 c15 c16 c17 c18)
qed

theorem process_one_catches_witness:
  "reports (process_one locked_world example_args example_fs example_path)
      (PermissionError (py ''[Errno 13] Permission denied''))
   \<and> reports (process_one backup_world backup_args example_fs example_path)
      (OtherError (py ''SameFileError'') (py ''album/song.flac and album/song.flac are the same file''))
   \<and> reports (process_one cleanup_world example_args example_fs example_path)
      (PermissionError (py ''[WinError 32] file in use''))
   \<and> reports (process_one flac_world example_args example_fs example_path)
      (FileNotFoundError (py ''flac''))
   \<and> reports (process_one busy_world example_args example_fs example_path)
      (OtherError (py ''OSError'') (py ''[Errno 5] Input/output error''))"
proof -
  let ?probe = "\<lparr>ok = True, reason = py ''OK'', is_flac = True,
         blocks = [\<lparr>mb_type = 0, mb_length = 0, mb_offset = 4, mb_is_last = True\<rparr>],
         streaminfo = None, total_meta_bytes_with_headers = 4, picture_bytes_total = 0,
         unknown_block_count = 0, last_block_marked = True\<rparr>"
  let ?plan = "\<lparr>needs_fix = True, reasons = [reason_decode], action = Ffmpeg, keep_cover = False\<rparr>"
  let ?fplan = "\<lparr>needs_fix = True, reasons = [reason_decode], action = Flac, keep_cover = False\<rparr>"
  let ?r0 = "(initial_result example_path)\<lparr>r_reasons := reason_decode, r_action := py ''ffmpeg''\<rparr>"
  let ?out = "py ''album/tmp/song.__fixed__.flac''"
  have a: "reports (process_one locked_world example_args example_fs example_path)
      (PermissionError (py ''[Errno 13] Permission denied''))"
    using process_one_catches [where w = locked_world and args = example_args and fs = example_fs
        and p = example_path and e = "PermissionError (py ''[Errno 13] Permission denied'')",
        THEN conjunct1]
    by (simp add: locked_world_def base_world_def)
  have b1: "open_and_parse backup_world example_fs example_path = Inr ?probe"
    using example_open by (simp add: open_and_parse_def backup_world_def)
  have b2: "decide_fix (w_which backup_world) (w_human_bytes backup_world) ?probe
      (fst (soundfile_decode_ok backup_world example_fs example_path))
      (a_keep_cover backup_args) (a_meta_threshold_mb backup_args) 1572864 = Inr ?plan"
    by (simp add: backup_world_def ffmpeg_world_def base_world_def backup_args_def example_args_def
        soundfile_decode_ok_def example_fs_def example_decide which_examples)
  have b3: "a_max_cover_mb backup_args = Inr 1572864" "\<not> a_dry_run backup_args" "a_backup backup_args"
    "w_backup backup_world = Some (OtherError (py ''SameFileError'')
        (py ''album/song.flac and album/song.flac are the same file''))"
    by (simp_all add: backup_args_def example_args_def backup_world_def)
  have b: "reports (process_one backup_world backup_args example_fs example_path)
      (OtherError (py ''SameFileError'') (py ''album/song.flac and album/song.flac are the same file''))"
    using process_one_catches [where w = backup_world and args = backup_args and fs = example_fs
        and p = example_path and probe = ?probe and mc = 1572864 and plan = ?plan
        and e = "OtherError (py ''SameFileError'')
           (py ''album/song.flac and album/song.flac are the same file'')",
        THEN conjunct2, THEN conjunct2, THEN conjunct2, THEN conjunct2, THEN conjunct1]
      b1 b2 b3
    by simp
  have c1: "w_mkdtemp cleanup_world = None"
    "w_cleanup cleanup_world = Some (PermissionError (py ''[WinError 32] file in use''))"
    by (simp_all add: cleanup_world_def ffmpeg_world_def base_world_def)
  have c: "reports (process_one cleanup_world example_args example_fs example_path)
      (PermissionError (py ''[WinError 32] file in use''))"
    using process_one_catches [where w = cleanup_world and args = example_args and fs = example_fs
        and p = example_path and plan = ?plan and ?r0.0 = ?r0
        and e = "PermissionError (py ''[WinError 32] file in use'')",
        THEN conjunct2, THEN conjunct2, THEN conjunct2, THEN conjunct2, THEN conjunct2,
        THEN conjunct2, THEN conjunct1]
      example_plan_cleanup c1
    by simp
  have d1: "w_mkdtemp flac_world = None" "w_cleanup flac_world = None"
    "w_mkdtemp_flac flac_world = None" "w_cleanup_flac flac_world = None"
    "w_flac_decode flac_world = Inl (FileNotFoundError (py ''flac''))"
    by (simp_all add: flac_world_def base_world_def)
  have d: "reports (process_one flac_world example_args example_fs example_path)
      (FileNotFoundError (py ''flac''))"
    using process_one_catches [where w = flac_world and args = example_args and fs = example_fs
        and p = example_path and plan = ?fplan
        and ?r0.0 = "(initial_result example_path)\<lparr>r_reasons := reason_decode, r_action := py ''flac''\<rparr>"
        and c = False and e = "FileNotFoundError (py ''flac'')",
        THEN conjunct2, THEN conjunct2, THEN conjunct2, THEN conjunct2, THEN conjunct2,
        THEN conjunct2, THEN conjunct2, THEN conjunct2, THEN conjunct2, THEN conjunct2,
        THEN conjunct2, THEN conjunct1]
      example_plan_flac d1
    by (simp add: after_cleanup_def)
  let ?fs1 = "written example_fs ?out (Some [9, 9])"
  have e0: "w_out_tmp busy_world = ?out" "w_mkdtemp busy_world = None" "w_cleanup busy_world = None"
    by (simp_all add: busy_world_def ffmpeg_world_def base_world_def)
  have e1: "execute_stage busy_world example_fs example_path ?plan ?r0 = Next (?r0, ?fs1)"
    by (simp add: execute_stage_def run_tool_def reencode_with_ffmpeg_def busy_world_def
        ffmpeg_world_def base_world_def written_def exists_def)
  have ne: "?out \<noteq> example_path"
    by (simp add: example_path_def py_def)
  have e2: "fst (soundfile_decode_ok busy_world ?fs1 ?out)"
    by (simp add: soundfile_decode_ok_def busy_world_def written_def)
  have e3: "exists ?fs1 example_path"
    using ne by (simp add: exists_def written_def example_fs_def)
  have e4: "w_faults busy_world (Unlink example_path) = Some (PermissionError (py ''[WinError 32] file in use''))"
    "w_faults busy_world (Rename example_path (example_path @ py ''.old'')) = None"
    "w_faults busy_world (Move ?out example_path)
       = Some (OtherError (py ''OSError'') (py ''[Errno 5] Input/output error''))"
    by (simp_all add: busy_world_def)
  have e: "reports (process_one busy_world example_args example_fs example_path)
      (OtherError (py ''OSError'') (py ''[Errno 5] Input/output error''))"
    using process_one_catches [where w = busy_world and args = example_args and fs = example_fs
        and p = example_path and plan = ?plan and ?r0.0 = ?r0 and ?r1.0 = ?r0 and ?fs1.0 = ?fs1
        and m = "py ''[WinError 32] file in use''"
        and e = "OtherError (py ''OSError'') (py ''[Errno 5] Input/output error'')",
        THEN conjunct2, THEN conjunct2, THEN conjunct2, THEN conjunct2, THEN conjunct2,
        THEN conjunct2, THEN conjunct2, THEN conjunct2, THEN conjunct2, THEN conjunct2,
        THEN conjunct2, THEN conjunct2, THEN conjunct2, THEN conjunct2, THEN conjunct2,
        THEN conjunct2, THEN conjunct1]
      example_plan_busy e0 e1 e2 e3 e4
    by (simp add: after_cleanup_def)
  from a b c d e show ?thesis
    by simp
qed

lemma parse_flac_not_magic:
  assumes "take 4 bs \<noteq> magic"
  shows "parse_flac bs = Inr \<lparr>ok = False, reason = py ''Not native FLAC (missing fLaC magic)'',
           is_flac = False, blocks = [], streaminfo = None, total_meta_bytes_with_headers = 0,
           picture_bytes_total = 0, unknown_block_count = 0, last_block_marked = False\<rparr>"
  using assms by (simp add: parse_flac_def file_read_def Let_def)

text \<open>Claim C7. For every file whose first four bytes are not the magic \<^verbatim>\<open>fLaC\<close> (a file
  shorter than four bytes included), \<open>parse_flac\<close> returns the probe with \<open>is_flac\<close> false, the
  rejection reason, and every other field empty or zero; the result is the same for every file
  with the same first four bytes, so nothing beyond them is consulted; and \<open>process_one\<close>, once
  the file has been opened, returns status SKIP with that reason and leaves the file system as
  it was.\<close>

theorem not_native_flac_skipped:
  assumes "take 4 bs \<noteq> magic"
  shows "parse_flac bs = Inr \<lparr>ok = False, reason = py ''Not native FLAC (missing fLaC magic)'',
           is_flac = False, blocks = [], streaminfo = None, total_meta_bytes_with_headers = 0,
           picture_bytes_total = 0, unknown_block_count = 0, last_block_marked = False\<rparr>
     \<and> (\<forall>bs'. take 4 bs' = take 4 bs \<longrightarrow> parse_flac bs' = parse_flac bs)
     \<and> (\<forall>w args fs p. w_open_fault w = None \<and> fs p = Some bs \<longrightarrow>
           process_one w args fs p
             = (initial_result p\<lparr>r_status := SKIP,
                  r_message := py ''Not native FLAC (missing fLaC magic)''\<rparr>, fs))"
proof (intro conjI allI impI)
  show "parse_flac bs = Inr \<lparr>ok = False, reason = py ''Not native FLAC (missing fLaC magic)'',
           is_flac = False, blocks = [], streaminfo = None, total_meta_bytes_with_headers = 0,
           picture_bytes_total = 0, unknown_block_count = 0, last_block_marked = False\<rparr>"
    using assms by (rule parse_flac_not_magic)
next
  fix bs' :: "byte list"
  assume "take 4 bs' = take 4 bs"
  with assms have "take 4 bs' \<noteq> magic"
    by simp
  then show "parse_flac bs' = parse_flac bs"
    using assms by (simp add: parse_flac_not_magic)
next
  fix w :: world and args :: args and fs :: fs and p :: path
  assume "w_open_fault w = None \<and> fs p = Some bs"
  then show "process_one w args fs p
             = (initial_result p\<lparr>r_status := SKIP,
                  r_message := py ''Not native FLAC (missing fLaC magic)''\<rparr>, fs)"
    using parse_flac_not_magic[OF assms]
    by (simp add: process_one_def Let_def try_block_def plan_stage_def open_and_parse_def)
qed

theorem not_native_flac_skipped_witness:
  "parse_flac [0x52, 0x49, 0x46, 0x46]
     = Inr \<lparr>ok = False, reason = py ''Not native FLAC (missing fLaC magic)'',
           is_flac = False, blocks = [], streaminfo = None, total_meta_bytes_with_headers = 0,
           picture_bytes_total = 0, unknown_block_count = 0, last_block_marked = False\<rparr>
   \<and> process_one base_world example_args ((\<lambda>q. None)(example_path := Some [0x52, 0x49, 0x46, 0x46]))
        example_path
     = ((initial_result example_path)\<lparr>r_status := SKIP,
          r_message := py ''Not native FLAC (missing fLaC magic)''\<rparr>,
        (\<lambda>q. None)(example_path := Some [0x52, 0x49, 0x46, 0x46]))"
proof -
  have h: "take 4 [0x52, 0x49, 0x46, 0x46 :: byte] \<noteq> magic"
    by (simp add: magic_def)
  have o: "w_open_fault base_world = None"
    by (simp add: base_world_def)
  from not_native_flac_skipped [OF h] o show ?thesis
    by simp
qed

end
